theory Spec2Isabelle
  imports Complex_Main
begin

section \<open>The iterative solvers of ffthompy/sparse/solver.py\<close>

text \<open>
  The module holds four solvers for a linear system \<open>A x = B\<close> over low-rank tensors:
  \<open>cheby2TERM\<close>, \<open>minimal_residual\<close>, \<open>richardson\<close> and \<open>richardson_debug\<close>.
  The tensor class and the operator are not part of the module, so the tensors are a type
  parameter \<open>'t\<close> and the methods the solvers call are the fields of a record.

  Conventions of the embedding.
  \<^item> The language is Python 3: \<open>1/2\<close> is \<open>0.5\<close>, and \<open><\<close> between a float and a list
    raises \<open>TypeError\<close>.
  \<^item> A scalar is a Python float, idealised to a real number (no rounding, no inf, no nan).
    Division is Python's: a zero divisor raises \<open>ZeroDivisionError\<close>.
  \<^item> Every \<open>raise\<close> of the source and every exception of the interpreter is a value
    \<open>Inl e\<close> of the result type \<open>error + 'a\<close>.
  \<^item> The operator \<open>Afun\<close> and the callback are functions of the caller and may raise:
    \<open>Afun x = None\<close> and \<open>callback x = False\<close> say that the call raised.
\<close>

subsection \<open>Python values and errors\<close>

datatype error =
    NotImplementedError
  | ValueError
  | ZeroDivisionError
  | TypeError
  | KeyError
  | IndexError
  | UnboundLocalError
  | OperatorError
  | CallbackError

text \<open>The values a caller may store under \<open>par['alpha']\<close>; \<open>isinstance(v, float)\<close>
  holds for \<open>PyFloat\<close> only.\<close>

datatype pyval = PyFloat real | PyInt int | PyBool bool | PyStr string | PyNone

fun is_float :: "pyval \<Rightarrow> bool" where
  "is_float (PyFloat a) = True"
| "is_float v = False"

definition py_div :: "real \<Rightarrow> real \<Rightarrow> error + real" where
  "py_div a b = (if b = 0 then Inl ZeroDivisionError else Inr (a / b))"

definition py_get :: "'a list \<Rightarrow> nat \<Rightarrow> error + 'a" where
  "py_get xs i = (if i < length xs then Inr (xs ! i) else Inl IndexError)"

text \<open>\<open>t < xs\<close> for a float \<open>t\<close> and a list \<open>xs\<close>: neither operand implements the
  comparison, and Python 3 raises.\<close>

definition py_lt_float_list :: "real \<Rightarrow> real list \<Rightarrow> error + bool" where
  "py_lt_float_list t xs = Inl TypeError"

definition and_then :: "error + 'a \<Rightarrow> ('a \<Rightarrow> error + 'b) \<Rightarrow> error + 'b" where
  "and_then m f = (case m of Inl e \<Rightarrow> Inl e | Inr v \<Rightarrow> f v)"

definition apply_op :: "('t \<Rightarrow> 't option) \<Rightarrow> 't \<Rightarrow> error + 't" where
  "apply_op Afun x = (case Afun x of None \<Rightarrow> Inl OperatorError | Some y \<Rightarrow> Inr y)"

subsection \<open>The tensor capability\<close>

text \<open>The methods of \<open>SparseTensor\<close> that the solvers call. \<open>t_const_field x\<close> is the
  constant field \<open>FM\<close> built from \<open>x.kind\<close> and \<open>x.N\<close>:
  \<open>SparseTensor(kind=x.kind, val=np.ones(x.N.size*[3,]), rank=1).fourier().enlarge(x.N)\<close>.\<close>

record 't tensor_ops =
  t_norm :: "'t \<Rightarrow> real"
  t_norm_nd :: "'t \<Rightarrow> real"
  t_sub :: "'t \<Rightarrow> 't \<Rightarrow> 't"
  t_add :: "'t \<Rightarrow> 't \<Rightarrow> 't"
  t_neg :: "'t \<Rightarrow> 't"
  t_mul :: "'t \<Rightarrow> real \<Rightarrow> 't"
  t_rmul :: "real \<Rightarrow> 't \<Rightarrow> 't"
  t_mean :: "'t \<Rightarrow> real"
  t_inner :: "'t \<Rightarrow> 't \<Rightarrow> real"
  t_truncate :: "'t \<Rightarrow> nat option \<Rightarrow> real option \<Rightarrow> 't"
  t_const_field :: "'t \<Rightarrow> 't"

text \<open>\<open>(-FM*x.mean()+x).truncate(rank=rank, tol=tol)\<close>, the line marked
  "setting correct mean".\<close>

definition mean_correct ::
  "'t tensor_ops \<Rightarrow> 't \<Rightarrow> 't \<Rightarrow> nat option \<Rightarrow> real option \<Rightarrow> 't" where
  "mean_correct ops FM x rank tol =
     t_truncate ops (t_add ops (t_mul ops (t_neg ops FM) (t_mean ops x)) x) rank tol"

subsection \<open>Parameters and results\<close>

text \<open>The dictionary \<open>par\<close>: a field is \<open>None\<close> when the key is absent. The argument
  itself is optional (\<open>par=None\<close>).\<close>

record params =
  p_tol :: "real option"
  p_maxiter :: "real option"
  p_eigrange :: "(real \<times> real) option"
  p_approx_omega :: "bool option"
  p_divcrit :: "bool option"
  p_alpha :: "pyval option"

definition empty_par :: params where
  "empty_par = \<lparr>p_tol = None, p_maxiter = None, p_eigrange = None,
     p_approx_omega = None, p_divcrit = None, p_alpha = None\<rparr>"

text \<open>\<open>par[key]\<close>: \<open>TypeError\<close> when \<open>par\<close> is \<open>None\<close>, \<open>KeyError\<close> when the key is
  absent.\<close>

definition subscript :: "params option \<Rightarrow> (params \<Rightarrow> 'a option) \<Rightarrow> error + 'a" where
  "subscript par key =
     (case par of None \<Rightarrow> Inl TypeError
      | Some p \<Rightarrow> (case key p of None \<Rightarrow> Inl KeyError | Some v \<Rightarrow> Inr v))"

text \<open>\<open>res['norm_res']\<close> is a list, except where \<open>cheby2TERM\<close> overwrites it with the
  number \<open>0\<close>.\<close>

datatype history = Seq "real list" | Scalar real

record result =
  norm_res :: history
  kit :: nat

subsection \<open>cheby2TERM\<close>

record 't cstate =
  cx :: 't
  cr :: 't
  cv :: 't
  cw :: "real option"
  chist :: "real list"
  ckit :: nat

text \<open>Lines 64 to 72: the coefficients \<open>p\<close> and \<open>w\<close> of iteration \<open>k\<close>. The variable
  \<open>w\<close> is unbound before the first iteration.\<close>

definition cheby_coeff :: "nat \<Rightarrow> real \<Rightarrow> real \<Rightarrow> real option \<Rightarrow> error + (real \<times> real)" where
  "cheby_coeff k d c w_prev =
     (if k = 1 then
        and_then (py_div 1 d) (\<lambda>w. Inr (0, w))
      else if k = 2 then
        and_then (py_div c d) (\<lambda>q1.
        and_then (py_div c d) (\<lambda>q2.
        and_then (py_div (c * c / 2) d) (\<lambda>t.
        and_then (py_div 1 (d - t)) (\<lambda>w.
          Inr (- (1 / 2) * q1 * q2, w)))))
      else
        (case w_prev of
           None \<Rightarrow> Inl UnboundLocalError
         | Some w0 \<Rightarrow>
             and_then (py_div 1 (d - c * c * w0 / 4)) (\<lambda>w.
               Inr (- (c * c / 4) * w0 * w0, w))))"

text \<open>Lines 62 to 85: one pass through the body of the loop.\<close>

definition cheby_body ::
  "'t tensor_ops \<Rightarrow> ('t \<Rightarrow> 't option) \<Rightarrow> 't \<Rightarrow> nat option \<Rightarrow> real option \<Rightarrow>
   ('t \<Rightarrow> bool) option \<Rightarrow> 't \<Rightarrow> real \<Rightarrow> real \<Rightarrow> real \<Rightarrow> 't cstate \<Rightarrow> error + 't cstate" where
  "cheby_body ops Afun B rank tol callback FM d c r0 st =
     (let k = ckit st + 1;
          x_prev = cx st
      in and_then (cheby_coeff k d c (cw st)) (\<lambda>(p, w).
         let v = t_truncate ops (t_sub ops (cr st) (t_rmul ops p (cv st))) rank tol;
             x1 = t_add ops x_prev (t_rmul ops w v);
             x = mean_correct ops FM x1 rank tol
         in and_then (apply_op Afun x) (\<lambda>Ax.
            let r = t_sub ops B Ax
            in and_then (py_div 1 r0) (\<lambda>ir0.
               let st' = \<lparr>cx = x, cr = r, cv = v, cw = Some w,
                          chist = chist st @ [ir0 * t_norm ops r], ckit = k\<rparr>
               in (case callback of
                     None \<Rightarrow> Inr st'
                   | Some cb \<Rightarrow> if cb x then Inr st' else Inl CallbackError)))))"

text \<open>Line 61: the guard of the loop.\<close>

definition cheby_guard :: "real \<Rightarrow> real \<Rightarrow> 't cstate \<Rightarrow> error + bool" where
  "cheby_guard ptol pmaxiter st =
     and_then (py_get (chist st) (ckit st)) (\<lambda>nr.
       Inr (nr > ptol \<and> real (ckit st) < pmaxiter))"

lemma cheby_body_kit:
  "cheby_body ops Afun B rank tol callback FM d c r0 st = Inr st' \<Longrightarrow> ckit st' = Suc (ckit st)"
  by (auto simp: cheby_body_def and_then_def Let_def split: sum.splits option.splits if_splits prod.splits)

lemma cheby_guard_kit:
  "cheby_guard ptol pmaxiter st = Inr True \<Longrightarrow> real (ckit st) < pmaxiter"
  by (auto simp: cheby_guard_def and_then_def split: sum.splits)

function cheby_loop ::
  "'t tensor_ops \<Rightarrow> ('t \<Rightarrow> 't option) \<Rightarrow> 't \<Rightarrow> nat option \<Rightarrow> real option \<Rightarrow>
   ('t \<Rightarrow> bool) option \<Rightarrow> 't \<Rightarrow> real \<Rightarrow> real \<Rightarrow> real \<Rightarrow> real \<Rightarrow> real \<Rightarrow>
   't cstate \<Rightarrow> error + 't cstate" where
  "cheby_loop ops Afun B rank tol callback FM d c r0 ptol pmaxiter st =
     (case cheby_guard ptol pmaxiter st of
        Inl e \<Rightarrow> Inl e
      | Inr go \<Rightarrow>
          if go then
            (case cheby_body ops Afun B rank tol callback FM d c r0 st of
               Inl e \<Rightarrow> Inl e
             | Inr st' \<Rightarrow> cheby_loop ops Afun B rank tol callback FM d c r0 ptol pmaxiter st')
          else Inr st)"
  by pat_completeness auto
termination
proof (relation "measure (\<lambda>(ops, Afun, B, rank, tol, callback, FM, d, c, r0, ptol, pmaxiter, st).
                   nat \<lceil>pmaxiter\<rceil> - ckit st)")
  show "wf (measure (\<lambda>(ops :: 't tensor_ops, Afun :: 't \<Rightarrow> 't option, B :: 't, rank :: nat option,
             tol :: real option, callback :: ('t \<Rightarrow> bool) option, FM :: 't, d :: real, c :: real,
             r0 :: real, ptol :: real, pmaxiter :: real, st :: 't cstate).
           nat \<lceil>pmaxiter\<rceil> - ckit st))"
    by simp
next
  fix ops :: "'t tensor_ops" and Afun B rank tol callback FM
    and d c r0 ptol pmaxiter :: real and st st' :: "'t cstate" and go
  assume g: "cheby_guard ptol pmaxiter st = Inr go" and go: go
    and b: "cheby_body ops Afun B rank tol callback FM d c r0 st = Inr st'"
  from g go have "real (ckit st) < pmaxiter"
    by (simp add: cheby_guard_kit)
  then have "ckit st < nat \<lceil>pmaxiter\<rceil>"
    by linarith
  with cheby_body_kit [OF b]
  show "((ops, Afun, B, rank, tol, callback, FM, d, c, r0, ptol, pmaxiter, st'),
         (ops, Afun, B, rank, tol, callback, FM, d, c, r0, ptol, pmaxiter, st))
        \<in> measure (\<lambda>(ops, Afun, B, rank, tol, callback, FM, d, c, r0, ptol, pmaxiter, st).
                   nat \<lceil>pmaxiter\<rceil> - ckit st)"
    by simp
qed

declare cheby_loop.simps [simp del]

text \<open>Lines 92 to 94: the result.\<close>

definition cheby_finish :: "'t cstate \<Rightarrow> 't \<times> result" where
  "cheby_finish st =
     (cx st, if ckit st = 0 then \<lparr>norm_res = Scalar 0, kit = ckit st\<rparr>
             else \<lparr>norm_res = Seq (chist st), kit = ckit st\<rparr>)"

text \<open>The whole function. The third component of the result is what the call printed.\<close>

definition cheby2TERM ::
  "'t tensor_ops \<Rightarrow> ('t \<Rightarrow> 't option) \<Rightarrow> 't \<Rightarrow> 't option \<Rightarrow> nat option \<Rightarrow> real option \<Rightarrow>
   params option \<Rightarrow> ('t \<Rightarrow> bool) option \<Rightarrow> error + ('t \<times> result \<times> string list)" where
  "cheby2TERM ops Afun B x0 rank tol par callback =
     (let par1 = (case par of None \<Rightarrow> empty_par | Some p \<Rightarrow> p);
          ptol = (case p_tol par1 of None \<Rightarrow> 1 / 1000000 | Some t \<Rightarrow> t);
          pmaxiter = (case p_maxiter par1 of None \<Rightarrow> 10000000 | Some m \<Rightarrow> m)
      in case p_eigrange par1 of
           None \<Rightarrow> Inl NotImplementedError
         | Some Egv \<Rightarrow>
             let bnrm2 = t_norm ops B
             in and_then (py_div 1 bnrm2) (\<lambda>Ib.
                let bnrm2' = (if bnrm2 = 0 then 1 else bnrm2);
                    x = (case x0 of None \<Rightarrow> B | Some x0' \<Rightarrow> x0')
                in and_then (apply_op Afun x) (\<lambda>Ax.
                   let r = t_sub ops B Ax;
                       r0 = t_norm ops r;
                       hist = [Ib * r0]
                   in and_then (py_get hist 0) (\<lambda>h0.
                      if h0 < ptol then Inr (x, \<lparr>norm_res = Seq hist, kit = 0\<rparr>, [])
                      else
                        let FM = t_const_field ops x;
                            d = (snd Egv + fst Egv) / 2;
                            c = (snd Egv - fst Egv) / 2;
                            v = t_mul ops x 0
                        in and_then
                             (cheby_loop ops Afun B rank tol callback FM d c r0 ptol pmaxiter
                                \<lparr>cx = x, cr = r, cv = v, cw = None, chist = hist, ckit = 0\<rparr>)
                             (\<lambda>st.
                                and_then (py_lt_float_list ptol (chist st)) (\<lambda>lt.
                                  let out = (if lt then [''Chebyshev solver does not converges!'']
                                             else [''Chebyshev solver converges.''])
                                  in (case cheby_finish st of (xr, res) \<Rightarrow> Inr (xr, res, out))))))))"

subsection \<open>The loop guard and the divergence test of the other solvers\<close>

text \<open>\<open>norm_res>par['tol'] and res['kit']<par['maxiter']\<close>; \<open>and\<close> evaluates its second
  operand only when the first holds.\<close>

definition loop_guard :: "params option \<Rightarrow> real \<Rightarrow> nat \<Rightarrow> error + bool" where
  "loop_guard par nr k =
     and_then (subscript par p_tol) (\<lambda>tl.
       if nr > tl then and_then (subscript par p_maxiter) (\<lambda>mx. Inr (real k < mx))
       else Inr False)"

text \<open>\<open>par['divcrit'] and norm_res>res['norm_res'][res['kit']-1]\<close>, where \<open>k\<close> is the
  value of \<open>res['kit']\<close> after its increment.\<close>

definition diverging :: "params option \<Rightarrow> real \<Rightarrow> real list \<Rightarrow> nat \<Rightarrow> error + bool" where
  "diverging par nr hist k =
     and_then (subscript par p_divcrit) (\<lambda>dc.
       if dc then and_then (py_get hist (k - 1)) (\<lambda>prev. Inr (nr > prev))
       else Inr False)"

definition maxiter_of :: "params option \<Rightarrow> real" where
  "maxiter_of par = (case par of None \<Rightarrow> 0 | Some p \<Rightarrow> (case p_maxiter p of None \<Rightarrow> 0 | Some m \<Rightarrow> m))"

lemma loop_guard_kit: "loop_guard par nr k = Inr True \<Longrightarrow> k < nat \<lceil>maxiter_of par\<rceil>"
proof -
  assume "loop_guard par nr k = Inr True"
  then have "real k < maxiter_of par"
    by (auto simp: loop_guard_def subscript_def maxiter_of_def and_then_def
        split: option.splits if_splits)
  then show ?thesis by linarith
qed

subsection \<open>minimal_residual\<close>

record 't mstate =
  mx :: 't
  mresiduum :: 't
  mbeta :: 't
  mnorm_res :: real
  mhist :: "real list"
  mkit :: nat

text \<open>Lines 119 to 128: the step size.\<close>

definition minres_omega ::
  "'t tensor_ops \<Rightarrow> ('t \<Rightarrow> real) \<Rightarrow> params option \<Rightarrow> real \<Rightarrow> 't \<Rightarrow> 't \<Rightarrow> error + real" where
  "minres_omega ops nrm par nres beta residuum =
     and_then (subscript par p_approx_omega) (\<lambda>ao.
       if ao then py_div nres (nrm beta)
       else
         and_then (py_div (t_inner ops beta residuum) ((nrm beta)\<^sup>2)) (\<lambda>omega.
           if \<bar>omega\<bar> < 1 / 10 then py_div nres (nrm beta) else Inr omega))"

text \<open>Lines 130 and 131: the new iterate.\<close>

definition minres_next_x ::
  "'t tensor_ops \<Rightarrow> 't \<Rightarrow> nat option \<Rightarrow> real option \<Rightarrow> 't mstate \<Rightarrow> real \<Rightarrow> 't" where
  "minres_next_x ops FM rank tol st omega =
     (let x1 = t_add ops (mx st) (t_mul ops (mresiduum st) omega)
      in mean_correct ops FM x1 rank tol)"

text \<open>Lines 133 to 136: the new residual, exact in every tenth iteration.\<close>

definition minres_next_residuum ::
  "'t tensor_ops \<Rightarrow> ('t \<Rightarrow> 't option) \<Rightarrow> 't \<Rightarrow> nat option \<Rightarrow> real option \<Rightarrow>
   't mstate \<Rightarrow> real \<Rightarrow> nat \<Rightarrow> 't \<Rightarrow> error + 't" where
  "minres_next_residuum ops Afun B rank tol st omega k x =
     (if k mod 10 = 0 then
        and_then (apply_op Afun x) (\<lambda>Ax. Inr (t_sub ops B Ax))
      else
        Inr (t_truncate ops (t_sub ops (mresiduum st) (t_mul ops (mbeta st) omega)) rank tol))"

text \<open>Lines 117 to 148: one pass through the body. The Boolean of the result says that
  the pass ended in \<open>break\<close>.\<close>

definition minres_body ::
  "'t tensor_ops \<Rightarrow> ('t \<Rightarrow> 't option) \<Rightarrow> 't \<Rightarrow> nat option \<Rightarrow> real option \<Rightarrow>
   params option \<Rightarrow> ('t \<Rightarrow> real) \<Rightarrow> 't \<Rightarrow> 't mstate \<Rightarrow> error + (bool \<times> 't mstate)" where
  "minres_body ops Afun B rank tol par nrm FM st =
     (let k = mkit st + 1
      in and_then (minres_omega ops nrm par (mnorm_res st) (mbeta st) (mresiduum st)) (\<lambda>omega.
         let x = minres_next_x ops FM rank tol st omega
         in and_then (minres_next_residuum ops Afun B rank tol st omega k x) (\<lambda>residuum.
            let nres = nrm residuum
            in and_then (diverging par nres (mhist st) k) (\<lambda>dv.
               if dv then
                 Inr (True, \<lparr>mx = x, mresiduum = residuum, mbeta = mbeta st,
                             mnorm_res = nres, mhist = mhist st, mkit = k\<rparr>)
               else
                 and_then (apply_op Afun residuum) (\<lambda>beta.
                   Inr (False, \<lparr>mx = x, mresiduum = residuum, mbeta = beta,
                                mnorm_res = nres, mhist = mhist st @ [nres],
                                mkit = k\<rparr>))))))"

lemma minres_body_kit:
  "minres_body ops Afun B rank tol par nrm FM st = Inr (brk, st') \<Longrightarrow> mkit st' = Suc (mkit st)"
  by (auto simp: minres_body_def and_then_def Let_def split: sum.splits if_splits)

function minres_loop ::
  "'t tensor_ops \<Rightarrow> ('t \<Rightarrow> 't option) \<Rightarrow> 't \<Rightarrow> nat option \<Rightarrow> real option \<Rightarrow>
   params option \<Rightarrow> ('t \<Rightarrow> real) \<Rightarrow> 't \<Rightarrow> 't mstate \<Rightarrow> error + 't mstate" where
  "minres_loop ops Afun B rank tol par nrm FM st =
     (case loop_guard par (mnorm_res st) (mkit st) of
        Inl e \<Rightarrow> Inl e
      | Inr go \<Rightarrow>
          if go then
            (case minres_body ops Afun B rank tol par nrm FM st of
               Inl e \<Rightarrow> Inl e
             | Inr (brk, st') \<Rightarrow>
                 if brk then Inr st'
                 else minres_loop ops Afun B rank tol par nrm FM st')
          else Inr st)"
  by pat_completeness auto
termination
proof (relation "measure (\<lambda>(ops, Afun, B, rank, tol, par, nrm, FM, st).
                   nat \<lceil>maxiter_of par\<rceil> - mkit st)")
  show "wf (measure (\<lambda>(ops :: 't tensor_ops, Afun :: 't \<Rightarrow> 't option, B :: 't, rank :: nat option,
             tol :: real option, par :: params option, nrm :: 't \<Rightarrow> real, FM :: 't,
             st :: 't mstate).
           nat \<lceil>maxiter_of par\<rceil> - mkit st))"
    by simp
next
  fix ops :: "'t tensor_ops" and Afun B rank tol par nrm FM and st st' :: "'t mstate"
    and go brk and bs :: "bool \<times> 't mstate"
  assume g: "loop_guard par (mnorm_res st) (mkit st) = Inr go" and go: go
    and b: "minres_body ops Afun B rank tol par nrm FM st = Inr bs" and bs: "(brk, st') = bs"
  from g go have "mkit st < nat \<lceil>maxiter_of par\<rceil>"
    by (simp add: loop_guard_kit)
  moreover from b bs have "mkit st' = Suc (mkit st)"
    using minres_body_kit [of ops Afun B rank tol par nrm FM st brk st'] by simp
  ultimately
  show "((ops, Afun, B, rank, tol, par, nrm, FM, st'), (ops, Afun, B, rank, tol, par, nrm, FM, st))
        \<in> measure (\<lambda>(ops, Afun, B, rank, tol, par, nrm, FM, st).
                   nat \<lceil>maxiter_of par\<rceil> - mkit st)"
    by simp
qed

declare minres_loop.simps [simp del]

definition minimal_residual ::
  "'t tensor_ops \<Rightarrow> ('t \<Rightarrow> 't option) \<Rightarrow> 't \<Rightarrow> 't option \<Rightarrow> nat option \<Rightarrow> real option \<Rightarrow>
   params option \<Rightarrow> ('t \<Rightarrow> real) option \<Rightarrow> error + ('t \<times> result)" where
  "minimal_residual ops Afun B x0 rank tol par norm_arg =
     (let x = (case x0 of None \<Rightarrow> B | Some x0' \<Rightarrow> x0');
          nrm = (case norm_arg of None \<Rightarrow> t_norm_nd ops | Some f \<Rightarrow> f)
      in and_then (apply_op Afun x) (\<lambda>Ax.
         let residuum = t_sub ops B Ax;
             hist = [nrm residuum]
         in and_then (apply_op Afun residuum) (\<lambda>beta.
            let FM = t_const_field ops x
            in and_then (py_get hist 0) (\<lambda>nres.
               and_then
                 (minres_loop ops Afun B rank tol par nrm FM
                    \<lparr>mx = x, mresiduum = residuum, mbeta = beta, mnorm_res = nres,
                     mhist = hist, mkit = 0\<rparr>)
                 (\<lambda>st. Inr (mx st, \<lparr>norm_res = Seq (mhist st), kit = mkit st\<rparr>))))))"

subsection \<open>richardson\<close>

record 't rstate =
  rx :: 't
  rnorm_res :: real
  rhist :: "real list"
  rkit :: nat

text \<open>Lines 180 and 181: the new iterate.\<close>

definition richardson_next_x ::
  "'t tensor_ops \<Rightarrow> 't \<Rightarrow> nat option \<Rightarrow> real option \<Rightarrow> 't \<Rightarrow> 't \<Rightarrow> real \<Rightarrow> 't" where
  "richardson_next_x ops FM rank tol x residuum omega =
     (let x1 = t_add ops x (t_mul ops residuum omega)
      in mean_correct ops FM x1 rank tol)"

text \<open>Lines 174 to 183: one pass through the body; the Boolean says that it ended in
  \<open>break\<close>.\<close>

definition richardson_body ::
  "'t tensor_ops \<Rightarrow> ('t \<Rightarrow> 't option) \<Rightarrow> 't \<Rightarrow> nat option \<Rightarrow> real option \<Rightarrow>
   params option \<Rightarrow> ('t \<Rightarrow> real) \<Rightarrow> 't \<Rightarrow> real \<Rightarrow> 't rstate \<Rightarrow> error + (bool \<times> 't rstate)" where
  "richardson_body ops Afun B rank tol par nrm FM omega st =
     (let k = rkit st + 1
      in and_then (apply_op Afun (rx st)) (\<lambda>Ax.
         let residuum = t_sub ops B Ax;
             nres = nrm residuum
         in and_then (diverging par nres (rhist st) k) (\<lambda>dv.
            if dv then
              Inr (True, \<lparr>rx = rx st, rnorm_res = nres, rhist = rhist st, rkit = k\<rparr>)
            else
              let x = richardson_next_x ops FM rank tol (rx st) residuum omega
              in Inr (False, \<lparr>rx = x, rnorm_res = nres, rhist = rhist st @ [nres],
                              rkit = k\<rparr>))))"

lemma richardson_body_kit:
  "richardson_body ops Afun B rank tol par nrm FM omega st = Inr (brk, st') \<Longrightarrow>
   rkit st' = Suc (rkit st)"
  by (auto simp: richardson_body_def and_then_def Let_def split: sum.splits if_splits)

function richardson_loop ::
  "'t tensor_ops \<Rightarrow> ('t \<Rightarrow> 't option) \<Rightarrow> 't \<Rightarrow> nat option \<Rightarrow> real option \<Rightarrow>
   params option \<Rightarrow> ('t \<Rightarrow> real) \<Rightarrow> 't \<Rightarrow> real \<Rightarrow> 't rstate \<Rightarrow> error + 't rstate" where
  "richardson_loop ops Afun B rank tol par nrm FM omega st =
     (case loop_guard par (rnorm_res st) (rkit st) of
        Inl e \<Rightarrow> Inl e
      | Inr go \<Rightarrow>
          if go then
            (case richardson_body ops Afun B rank tol par nrm FM omega st of
               Inl e \<Rightarrow> Inl e
             | Inr (brk, st') \<Rightarrow>
                 if brk then Inr st'
                 else richardson_loop ops Afun B rank tol par nrm FM omega st')
          else Inr st)"
  by pat_completeness auto
termination
proof (relation "measure (\<lambda>(ops, Afun, B, rank, tol, par, nrm, FM, omega, st).
                   nat \<lceil>maxiter_of par\<rceil> - rkit st)")
  show "wf (measure (\<lambda>(ops :: 't tensor_ops, Afun :: 't \<Rightarrow> 't option, B :: 't, rank :: nat option,
             tol :: real option, par :: params option, nrm :: 't \<Rightarrow> real, FM :: 't,
             omega :: real, st :: 't rstate).
           nat \<lceil>maxiter_of par\<rceil> - rkit st))"
    by simp
next
  fix ops :: "'t tensor_ops" and Afun B rank tol par nrm FM and omega :: real
    and st st' :: "'t rstate" and go brk and bs :: "bool \<times> 't rstate"
  assume g: "loop_guard par (rnorm_res st) (rkit st) = Inr go" and go: go
    and b: "richardson_body ops Afun B rank tol par nrm FM omega st = Inr bs"
    and bs: "(brk, st') = bs"
  from g go have "rkit st < nat \<lceil>maxiter_of par\<rceil>"
    by (simp add: loop_guard_kit)
  moreover from b bs have "rkit st' = Suc (rkit st)"
    using richardson_body_kit [of ops Afun B rank tol par nrm FM omega st brk st'] by simp
  ultimately
  show "((ops, Afun, B, rank, tol, par, nrm, FM, omega, st'),
         (ops, Afun, B, rank, tol, par, nrm, FM, omega, st))
        \<in> measure (\<lambda>(ops, Afun, B, rank, tol, par, nrm, FM, omega, st).
                   nat \<lceil>maxiter_of par\<rceil> - rkit st)"
    by simp
qed

declare richardson_loop.simps [simp del]

text \<open>Lines 153 to 156 and 188 to 191: the step size, or the \<open>ValueError\<close>.\<close>

definition richardson_omega :: "params option \<Rightarrow> error + real" where
  "richardson_omega par =
     and_then (subscript par p_alpha) (\<lambda>a.
       case a of
         PyFloat al \<Rightarrow> py_div 1 al
       | _ \<Rightarrow> Inl ValueError)"

text \<open>Lines 157 to 185: the rest of the function, once the step size is known.\<close>

definition richardson_run ::
  "'t tensor_ops \<Rightarrow> ('t \<Rightarrow> 't option) \<Rightarrow> 't \<Rightarrow> 't option \<Rightarrow> nat option \<Rightarrow> real option \<Rightarrow>
   params option \<Rightarrow> ('t \<Rightarrow> real) option \<Rightarrow> real \<Rightarrow> error + ('t \<times> result)" where
  "richardson_run ops Afun B x0 rank tol par norm_arg omega =
     (let x = (case x0 of None \<Rightarrow> t_mul ops B omega | Some x0' \<Rightarrow> x0');
          nrm = (case norm_arg of None \<Rightarrow> t_norm ops | Some f \<Rightarrow> f);
          hist = [nrm B];
          FM = t_const_field ops x
      in and_then
           (richardson_loop ops Afun B rank tol par nrm FM omega
              \<lparr>rx = x, rnorm_res = 10 ^ 15, rhist = hist, rkit = 0\<rparr>)
           (\<lambda>st. Inr (rx st, \<lparr>norm_res = Seq (rhist st), kit = rkit st\<rparr>)))"

definition richardson ::
  "'t tensor_ops \<Rightarrow> ('t \<Rightarrow> 't option) \<Rightarrow> 't \<Rightarrow> 't option \<Rightarrow> nat option \<Rightarrow> real option \<Rightarrow>
   params option \<Rightarrow> ('t \<Rightarrow> real) option \<Rightarrow> error + ('t \<times> result)" where
  "richardson ops Afun B x0 rank tol par norm_arg =
     and_then (richardson_omega par) (richardson_run ops Afun B x0 rank tol par norm_arg)"

subsection \<open>richardson_debug\<close>

text \<open>Lines 206 to 219. The timers only measure; they are left out.\<close>

definition richardson_debug_body ::
  "'t tensor_ops \<Rightarrow> ('t \<Rightarrow> 't option) \<Rightarrow> 't \<Rightarrow> nat option \<Rightarrow> real option \<Rightarrow>
   ('t \<Rightarrow> real) \<Rightarrow> real \<Rightarrow> 't rstate \<Rightarrow> error + 't rstate" where
  "richardson_debug_body ops Afun B rank tol nrm omega st =
     (let k = rkit st + 1
      in and_then (apply_op Afun (rx st)) (\<lambda>Afunx.
         let residuum = t_sub ops B Afunx;
             x = t_truncate ops (t_add ops (rx st) (t_mul ops residuum omega)) rank tol;
             nres = nrm residuum
         in Inr \<lparr>rx = x, rnorm_res = nres, rhist = rhist st @ [nres], rkit = k\<rparr>))"

lemma richardson_debug_body_kit:
  "richardson_debug_body ops Afun B rank tol nrm omega st = Inr st' \<Longrightarrow> rkit st' = Suc (rkit st)"
  by (auto simp: richardson_debug_body_def and_then_def Let_def split: sum.splits)

function richardson_debug_loop ::
  "'t tensor_ops \<Rightarrow> ('t \<Rightarrow> 't option) \<Rightarrow> 't \<Rightarrow> nat option \<Rightarrow> real option \<Rightarrow>
   params option \<Rightarrow> ('t \<Rightarrow> real) \<Rightarrow> real \<Rightarrow> 't rstate \<Rightarrow> error + 't rstate" where
  "richardson_debug_loop ops Afun B rank tol par nrm omega st =
     (case loop_guard par (rnorm_res st) (rkit st) of
        Inl e \<Rightarrow> Inl e
      | Inr go \<Rightarrow>
          if go then
            (case richardson_debug_body ops Afun B rank tol nrm omega st of
               Inl e \<Rightarrow> Inl e
             | Inr st' \<Rightarrow> richardson_debug_loop ops Afun B rank tol par nrm omega st')
          else Inr st)"
  by pat_completeness auto
termination
proof (relation "measure (\<lambda>(ops, Afun, B, rank, tol, par, nrm, omega, st).
                   nat \<lceil>maxiter_of par\<rceil> - rkit st)")
  show "wf (measure (\<lambda>(ops :: 't tensor_ops, Afun :: 't \<Rightarrow> 't option, B :: 't, rank :: nat option,
             tol :: real option, par :: params option, nrm :: 't \<Rightarrow> real, omega :: real,
             st :: 't rstate).
           nat \<lceil>maxiter_of par\<rceil> - rkit st))"
    by simp
next
  fix ops :: "'t tensor_ops" and Afun B rank tol par nrm and omega :: real
    and st st' :: "'t rstate" and go
  assume g: "loop_guard par (rnorm_res st) (rkit st) = Inr go" and go: go
    and b: "richardson_debug_body ops Afun B rank tol nrm omega st = Inr st'"
  from g go have "rkit st < nat \<lceil>maxiter_of par\<rceil>"
    by (simp add: loop_guard_kit)
  moreover from b have "rkit st' = Suc (rkit st)"
    by (rule richardson_debug_body_kit)
  ultimately
  show "((ops, Afun, B, rank, tol, par, nrm, omega, st'),
         (ops, Afun, B, rank, tol, par, nrm, omega, st))
        \<in> measure (\<lambda>(ops, Afun, B, rank, tol, par, nrm, omega, st).
                   nat \<lceil>maxiter_of par\<rceil> - rkit st)"
    by simp
qed

declare richardson_debug_loop.simps [simp del]

text \<open>Lines 192 to 222: the rest of the function, once the step size is known.\<close>

definition richardson_debug_run ::
  "'t tensor_ops \<Rightarrow> ('t \<Rightarrow> 't option) \<Rightarrow> 't \<Rightarrow> 't option \<Rightarrow> nat option \<Rightarrow> real option \<Rightarrow>
   params option \<Rightarrow> ('t \<Rightarrow> real) option \<Rightarrow> real \<Rightarrow> error + ('t \<times> result)" where
  "richardson_debug_run ops Afun B x0 rank tol par norm_arg omega =
     (let x = (case x0 of None \<Rightarrow> t_mul ops B omega | Some x0' \<Rightarrow> x0');
          x' = t_truncate ops x rank tol;
          nrm = (case norm_arg of None \<Rightarrow> t_norm ops | Some f \<Rightarrow> f)
      in and_then
           (richardson_debug_loop ops Afun B rank tol par nrm omega
              \<lparr>rx = x', rnorm_res = 10 ^ 15, rhist = [], rkit = 0\<rparr>)
           (\<lambda>st.
              and_then (apply_op Afun (rx st)) (\<lambda>Ax.
                Inr (rx st, \<lparr>norm_res = Seq (rhist st @ [nrm (t_sub ops B Ax)]),
                             kit = rkit st\<rparr>))))"

definition richardson_debug ::
  "'t tensor_ops \<Rightarrow> ('t \<Rightarrow> 't option) \<Rightarrow> 't \<Rightarrow> 't option \<Rightarrow> nat option \<Rightarrow> real option \<Rightarrow>
   params option \<Rightarrow> ('t \<Rightarrow> real) option \<Rightarrow> error + ('t \<times> result)" where
  "richardson_debug ops Afun B x0 rank tol par norm_arg =
     and_then (richardson_omega par)
       (richardson_debug_run ops Afun B x0 rank tol par norm_arg)"

subsection \<open>The states at the head of a loop\<close>

text \<open>\<open>cheby_reach \<dots> st0 st\<close>: the loop started in \<open>st0\<close> stands at its head in state
  \<open>st\<close> after some number of complete passes. The same for the other loops; a pass that
  ends in \<open>break\<close> leaves the loop and reaches no head.\<close>

inductive cheby_reach ::
  "'t tensor_ops \<Rightarrow> ('t \<Rightarrow> 't option) \<Rightarrow> 't \<Rightarrow> nat option \<Rightarrow> real option \<Rightarrow>
   ('t \<Rightarrow> bool) option \<Rightarrow> 't \<Rightarrow> real \<Rightarrow> real \<Rightarrow> real \<Rightarrow> real \<Rightarrow> real \<Rightarrow>
   't cstate \<Rightarrow> 't cstate \<Rightarrow> bool"
  for ops Afun B rank tol callback FM d c r0 ptol pmaxiter st0 where
  cheby_start: "cheby_reach ops Afun B rank tol callback FM d c r0 ptol pmaxiter st0 st0"
| cheby_pass:
    "cheby_reach ops Afun B rank tol callback FM d c r0 ptol pmaxiter st0 st \<Longrightarrow>
     cheby_guard ptol pmaxiter st = Inr True \<Longrightarrow>
     cheby_body ops Afun B rank tol callback FM d c r0 st = Inr st' \<Longrightarrow>
     cheby_reach ops Afun B rank tol callback FM d c r0 ptol pmaxiter st0 st'"

inductive minres_reach ::
  "'t tensor_ops \<Rightarrow> ('t \<Rightarrow> 't option) \<Rightarrow> 't \<Rightarrow> nat option \<Rightarrow> real option \<Rightarrow>
   params option \<Rightarrow> ('t \<Rightarrow> real) \<Rightarrow> 't \<Rightarrow> 't mstate \<Rightarrow> 't mstate \<Rightarrow> bool"
  for ops Afun B rank tol par nrm FM st0 where
  minres_start: "minres_reach ops Afun B rank tol par nrm FM st0 st0"
| minres_pass:
    "minres_reach ops Afun B rank tol par nrm FM st0 st \<Longrightarrow>
     loop_guard par (mnorm_res st) (mkit st) = Inr True \<Longrightarrow>
     minres_body ops Afun B rank tol par nrm FM st = Inr (False, st') \<Longrightarrow>
     minres_reach ops Afun B rank tol par nrm FM st0 st'"


subsection \<open>The coefficients of the Chebyshev recurrence, as formulas\<close>

text \<open>The step \<open>w\<close> of iteration \<open>k\<close>, counted from 1, as the specification gives it:
  \<open>1/d\<close>, then \<open>1/(d - c\<^sup>2/(2d))\<close>, then \<open>1/(d - c\<^sup>2 w_prev/4)\<close>.\<close>

fun spec_w :: "real \<Rightarrow> real \<Rightarrow> nat \<Rightarrow> real" where
  "spec_w d c 0 = 0"
| "spec_w d c (Suc 0) = 1 / d"
| "spec_w d c (Suc (Suc 0)) = 1 / (d - c\<^sup>2 / (2 * d))"
| "spec_w d c (Suc (Suc (Suc n))) = 1 / (d - c\<^sup>2 * spec_w d c (Suc (Suc n)) / 4)"

text \<open>The coefficient \<open>p\<close> of iteration \<open>k\<close> as the specification gives it: \<open>0\<close>, then
  \<open>-(c/(2d))\<^sup>2\<close>, then \<open>-(c\<^sup>2/4) w_prev\<^sup>2\<close>.\<close>

definition spec_p :: "real \<Rightarrow> real \<Rightarrow> nat \<Rightarrow> real" where
  "spec_p d c k =
     (if k = 1 then 0
      else if k = 2 then - (c / (2 * d))\<^sup>2
      else - (c\<^sup>2 / 4) * (spec_w d c (k - 1))\<^sup>2)"

text \<open>The same with the second coefficient as line 68 has it, \<open>-(1/2)(c/d)\<^sup>2\<close>.\<close>

definition source_p :: "real \<Rightarrow> real \<Rightarrow> nat \<Rightarrow> real" where
  "source_p d c k =
     (if k = 1 then 0
      else if k = 2 then - (1 / 2) * (c / d)\<^sup>2
      else - (c\<^sup>2 / 4) * (spec_w d c (k - 1))\<^sup>2)"

subsection \<open>A concrete tensor capability\<close>

text \<open>Fields on a grid of two points: a tensor is a pair of reals, the norm is the sum of the
  absolute values, the mean is the average, truncation changes nothing and the constant
  field is \<open>(1, 1)\<close>. The operator \<open>diag_op a b\<close> multiplies the first component by
  \<open>a\<close> and the second by \<open>b\<close>.\<close>

definition pair_ops :: "(real \<times> real) tensor_ops" where
  "pair_ops =
     \<lparr>t_norm = (\<lambda>(a, b). \<bar>a\<bar> + \<bar>b\<bar>),
      t_norm_nd = (\<lambda>(a, b). \<bar>a\<bar> + \<bar>b\<bar>),
      t_sub = (\<lambda>(a, b) (a', b'). (a - a', b - b')),
      t_add = (\<lambda>(a, b) (a', b'). (a + a', b + b')),
      t_neg = (\<lambda>(a, b). (- a, - b)),
      t_mul = (\<lambda>(a, b) s. (a * s, b * s)),
      t_rmul = (\<lambda>s (a, b). (s * a, s * b)),
      t_mean = (\<lambda>(a, b). (a + b) / 2),
      t_inner = (\<lambda>(a, b) (a', b'). a * a' + b * b'),
      t_truncate = (\<lambda>x rank tol. x),
      t_const_field = (\<lambda>x. (1, 1))\<rparr>"

definition diag_op :: "real \<Rightarrow> real \<Rightarrow> real \<times> real \<Rightarrow> (real \<times> real) option" where
  "diag_op a b x = Some (a * fst x, b * snd x)"

text \<open>\<open>par = {'eigrange': (1.0, 3.0)}\<close>.\<close>

definition cheby_par :: params where
  "cheby_par = empty_par\<lparr>p_eigrange := Some (1, 3)\<rparr>"

text \<open>The Chebyshev loop for \<open>Afun = diag_op 1 3\<close>, \<open>B = (1, -1)\<close>, \<open>x0 = None\<close> and
  \<open>cheby_par\<close>: the state before the first pass, after it and after the second.\<close>

definition cheby_st0 :: "(real \<times> real) cstate" where
  "cheby_st0 = \<lparr>cx = (1, - 1), cr = (0, 2), cv = (0, 0), cw = None, chist = [1], ckit = 0\<rparr>"

definition cheby_st1 :: "(real \<times> real) cstate" where
  "cheby_st1 = \<lparr>cx = (1 / 2, - 1 / 2), cr = (1 / 2, 1 / 2), cv = (0, 2), cw = Some (1 / 2),
                 chist = [1, 1 / 2], ckit = 1\<rparr>"

definition cheby_st2 :: "(real \<times> real) cstate" where
  "cheby_st2 = \<lparr>cx = (3 / 7, - 3 / 7), cr = (4 / 7, 2 / 7), cv = (1 / 2, 3 / 4),
                 cw = Some (4 / 7), chist = [1, 1 / 2, 3 / 7], ckit = 2\<rparr>"

text \<open>\<open>par = {'tol': 1e-6, 'maxiter': 100, 'approx_omega': True, 'divcrit': True,
  'alpha': 1.0}\<close>, and variants of it.\<close>

definition solver_par :: params where
  "solver_par = \<lparr>p_tol = Some (1 / 1000000), p_maxiter = Some 100, p_eigrange = None,
     p_approx_omega = Some True, p_divcrit = Some True, p_alpha = Some (PyFloat 1)\<rparr>"

definition exact_par :: params where
  "exact_par = solver_par\<lparr>p_approx_omega := Some False\<rparr>"

definition int_alpha_par :: params where
  "int_alpha_par = solver_par\<lparr>p_alpha := Some (PyInt 2)\<rparr>"

definition zero_alpha_par :: params where
  "zero_alpha_par = solver_par\<lparr>p_alpha := Some (PyFloat 0)\<rparr>"

text \<open>The Chebyshev loop for \<open>Afun = diag_op 2 2\<close>, \<open>B = (1, -1)\<close> and \<open>x0 = None\<close>: the
  state before the first pass and after it.\<close>

definition cheby_sc0 :: "(real \<times> real) cstate" where
  "cheby_sc0 = \<lparr>cx = (1, - 1), cr = (- 1, 1), cv = (0, 0), cw = None, chist = [1], ckit = 0\<rparr>"

definition cheby_sc1 :: "(real \<times> real) cstate" where
  "cheby_sc1 = \<lparr>cx = (1 / 2, - 1 / 2), cr = (0, 0), cv = (- 1, 1), cw = Some (1 / 2),
                 chist = [1, 0], ckit = 1\<rparr>"

text \<open>The loop of \<open>minimal_residual\<close> for \<open>Afun = diag_op (-1) (-1)\<close>, \<open>B = (1, 0)\<close>,
  \<open>x0 = (0, 0)\<close> and \<open>solver_par\<close>: the state before the first pass, and the state in which
  the first pass leaves the loop by \<open>break\<close>.\<close>

definition minres_sd0 :: "(real \<times> real) mstate" where
  "minres_sd0 = \<lparr>mx = (0, 0), mresiduum = (1, 0), mbeta = (- 1, 0), mnorm_res = 1,
                  mhist = [1], mkit = 0\<rparr>"

definition minres_sd1 :: "(real \<times> real) mstate" where
  "minres_sd1 = \<lparr>mx = (1 / 2, - 1 / 2), mresiduum = (2, 0), mbeta = (- 1, 0), mnorm_res = 2,
                  mhist = [1], mkit = 1\<rparr>"

text \<open>The loop of \<open>minimal_residual\<close> for \<open>Afun = diag_op 2 2\<close>, \<open>B = (1, -1)\<close>,
  \<open>x0 = (0, 0)\<close> and \<open>exact_par\<close>: the state before the first pass and after it.\<close>

definition minres_se0 :: "(real \<times> real) mstate" where
  "minres_se0 = \<lparr>mx = (0, 0), mresiduum = (1, - 1), mbeta = (2, - 2), mnorm_res = 2,
                  mhist = [2], mkit = 0\<rparr>"

definition minres_se1 :: "(real \<times> real) mstate" where
  "minres_se1 = \<lparr>mx = (1 / 4, - 1 / 4), mresiduum = (1 / 2, - 1 / 2), mbeta = (1, - 1),
                  mnorm_res = 1, mhist = [2, 1], mkit = 1\<rparr>"

text \<open>The loop of \<open>richardson\<close> for \<open>Afun = diag_op 3 3\<close>, \<open>B = (1, -1)\<close>, \<open>x0 = (0, 0)\<close>
  and \<open>solver_par\<close>: the state before the first pass, after it, and the state in which the
  second pass leaves the loop by \<open>break\<close>.\<close>

definition rich_st0 :: "(real \<times> real) rstate" where
  "rich_st0 = \<lparr>rx = (0, 0), rnorm_res = 10 ^ 15, rhist = [2], rkit = 0\<rparr>"

definition rich_st1 :: "(real \<times> real) rstate" where
  "rich_st1 = \<lparr>rx = (1, - 1), rnorm_res = 2, rhist = [2, 2], rkit = 1\<rparr>"

definition rich_st2 :: "(real \<times> real) rstate" where
  "rich_st2 = \<lparr>rx = (1, - 1), rnorm_res = 4, rhist = [2, 2], rkit = 2\<rparr>"

text \<open>The loop of \<open>minimal_residual\<close> for \<open>Afun = diag_op 2 2\<close> and \<open>exact_par\<close>: the
  state after the second pass.\<close>

definition minres_se2 :: "(real \<times> real) mstate" where
  "minres_se2 = \<lparr>mx = (3 / 8, - 3 / 8), mresiduum = (1 / 4, - 1 / 4), mbeta = (1 / 2, - 1 / 2),
                  mnorm_res = 1 / 2, mhist = [2, 1, 1 / 2], mkit = 2\<rparr>"

text \<open>\<open>par = {'eigrange': (-1.0, 1.0)}\<close>.\<close>

definition sym_par :: params where
  "sym_par = empty_par\<lparr>p_eigrange := Some (- 1, 1)\<rparr>"

subsection \<open>The parts of a call, named\<close>

text \<open>Lines 26 to 29 of \<open>cheby2TERM\<close>: the tolerance and the iteration limit after the
  defaults.\<close>

definition cheby_tol :: "params \<Rightarrow> real" where
  "cheby_tol p = (case p_tol p of None \<Rightarrow> 1 / 1000000 | Some t \<Rightarrow> t)"

definition cheby_maxiter :: "params \<Rightarrow> real" where
  "cheby_maxiter p = (case p_maxiter p of None \<Rightarrow> 10000000 | Some m \<Rightarrow> m)"

text \<open>The state in which \<open>cheby2TERM\<close> reaches line 61 for the first time, for the initial
  iterate \<open>x\<close> and \<open>Ax = Afun(x)\<close> (lines 35 to 60).\<close>

definition cheby_init :: "'t tensor_ops \<Rightarrow> 't \<Rightarrow> 't \<Rightarrow> 't \<Rightarrow> 't cstate" where
  "cheby_init ops B x Ax =
     \<lparr>cx = x, cr = t_sub ops B Ax, cv = t_mul ops x 0, cw = None,
      chist = [1 / t_norm ops B * t_norm ops (t_sub ops B Ax)], ckit = 0\<rparr>"

text \<open>Lines 87 to 94 of \<open>cheby2TERM\<close>: the report and the result, for the state in which
  the loop has ended.\<close>

definition cheby_tail :: "real \<Rightarrow> 't cstate \<Rightarrow> error + ('t \<times> result \<times> string list)" where
  "cheby_tail ptol st =
     and_then (py_lt_float_list ptol (chist st)) (\<lambda>lt.
       let out = (if lt then [''Chebyshev solver does not converges!'']
                  else [''Chebyshev solver converges.''])
       in (case cheby_finish st of (xr, res) \<Rightarrow> Inr (xr, res, out)))"

text \<open>The state in which \<open>minimal_residual\<close> reaches line 116 for the first time, for the
  norm \<open>nrm\<close>, the initial iterate \<open>x\<close>, \<open>Ax = Afun(x)\<close> and \<open>beta = Afun(B - Ax)\<close>
  (lines 98 to 114); and line 150: the result.\<close>

definition minres_init :: "'t tensor_ops \<Rightarrow> ('t \<Rightarrow> real) \<Rightarrow> 't \<Rightarrow> 't \<Rightarrow> 't \<Rightarrow> 't \<Rightarrow> 't mstate" where
  "minres_init ops nrm B x Ax beta =
     \<lparr>mx = x, mresiduum = t_sub ops B Ax, mbeta = beta, mnorm_res = nrm (t_sub ops B Ax),
      mhist = [nrm (t_sub ops B Ax)], mkit = 0\<rparr>"

definition minres_result :: "'t mstate \<Rightarrow> error + ('t \<times> result)" where
  "minres_result st = Inr (mx st, \<lparr>norm_res = Seq (mhist st), kit = mkit st\<rparr>)"

subsection \<open>Notions used in the properties\<close>

text \<open>An iterate that is the result of the mean correction.\<close>

definition corrected :: "'t tensor_ops \<Rightarrow> 't \<Rightarrow> nat option \<Rightarrow> real option \<Rightarrow> 't \<Rightarrow> bool" where
  "corrected ops FM rank tol x \<longleftrightarrow> (\<exists>y. x = mean_correct ops FM y rank tol)"

text \<open>What the mean correction needs of the tensor class, which is not part of the module:
  the mean is additive, commutes with the multiplication by a number and with the sign,
  the constant field of ones has mean 1, and a truncation to \<open>rank\<close> and \<open>tol\<close> moves the
  mean by at most \<open>eps\<close> (the truncation tolerance, as the mean sees it).\<close>

definition mean_laws :: "'t tensor_ops \<Rightarrow> nat option \<Rightarrow> real option \<Rightarrow> real \<Rightarrow> bool" where
  "mean_laws ops rank tol eps \<longleftrightarrow>
     (\<forall>a b. t_mean ops (t_add ops a b) = t_mean ops a + t_mean ops b) \<and>
     (\<forall>a s. t_mean ops (t_mul ops a s) = t_mean ops a * s) \<and>
     (\<forall>a. t_mean ops (t_neg ops a) = - t_mean ops a) \<and>
     (\<forall>x. t_mean ops (t_const_field ops x) = 1) \<and>
     (\<forall>a. \<bar>t_mean ops (t_truncate ops a rank tol) - t_mean ops a\<bar> \<le> eps)"

text \<open>The step size of \<open>minimal_residual\<close> as the specification gives it: the ratio of the
  norms when \<open>approx_omega\<close> is set; otherwise the exact value, replaced by the ratio when
  its magnitude is below \<open>1e-1\<close>.\<close>

definition spec_omega :: "bool \<Rightarrow> real \<Rightarrow> real \<Rightarrow> real \<Rightarrow> real" where
  "spec_omega approx norm_residuum norm_beta inner_beta_residuum =
     (if approx then norm_residuum / norm_beta
      else
        (let exact = inner_beta_residuum / norm_beta\<^sup>2
         in if \<bar>exact\<bar> < 1 / 10 then norm_residuum / norm_beta else exact))"

text \<open>The history at the head of pass \<open>k + 1\<close>: it has \<open>k + 1\<close> entries, so that
  \<open>res['norm_res'][res['kit']-1]\<close> after the increment is its last entry, and no entry
  exceeds the one before it.\<close>

definition hist_ok :: "real list \<Rightarrow> nat \<Rightarrow> bool" where
  "hist_ok hist k \<longleftrightarrow> length hist = Suc k \<and> sorted_wrt (\<lambda>a b. b \<le> a) hist"

section \<open>Properties\<close>

subsection \<open>Evaluation on the concrete capability\<close>

lemma pair_ops_simps:
  "t_norm pair_ops (a, b) = \<bar>a\<bar> + \<bar>b\<bar>"
  "t_norm_nd pair_ops (a, b) = \<bar>a\<bar> + \<bar>b\<bar>"
  "t_sub pair_ops (a, b) (a', b') = (a - a', b - b')"
  "t_add pair_ops (a, b) (a', b') = (a + a', b + b')"
  "t_neg pair_ops (a, b) = (- a, - b)"
  "t_mul pair_ops (a, b) s = (a * s, b * s)"
  "t_rmul pair_ops s (a, b) = (s * a, s * b)"
  "t_mean pair_ops (a, b) = (a + b) / 2"
  "t_inner pair_ops (a, b) (a', b') = a * a' + b * b'"
  "t_truncate pair_ops x rank tol = x"
  "t_const_field pair_ops x = (1, 1)"
  by (simp_all add: pair_ops_def)

lemma cheby_run_guard0: "cheby_guard (1 / 1000000) 10000000 cheby_st0 = Inr True"
  by (simp add: cheby_guard_def cheby_st0_def and_then_def py_get_def)

lemma cheby_run_body0:
  "cheby_body pair_ops (diag_op 1 3) (1, - 1) None None None (1, 1) 2 1 2 cheby_st0 = Inr cheby_st1"
  by (simp add: cheby_body_def cheby_coeff_def cheby_st0_def cheby_st1_def and_then_def
      py_div_def apply_op_def diag_op_def mean_correct_def pair_ops_simps)

lemma cheby_run_guard1: "cheby_guard (1 / 1000000) 10000000 cheby_st1 = Inr True"
  by (simp add: cheby_guard_def cheby_st1_def and_then_def py_get_def)

lemma cheby_run_body1:
  "cheby_body pair_ops (diag_op 1 3) (1, - 1) None None None (1, 1) 2 1 2 cheby_st1 = Inr cheby_st2"
  by (simp add: cheby_body_def cheby_coeff_def cheby_st1_def cheby_st2_def and_then_def
      py_div_def apply_op_def diag_op_def mean_correct_def pair_ops_simps)

lemma cheby_run_reach1:
  "cheby_reach pair_ops (diag_op 1 3) (1, - 1) None None None (1, 1) 2 1 2 (1 / 1000000) 10000000
     cheby_st0 cheby_st1"
  by (rule cheby_pass [OF cheby_start cheby_run_guard0 cheby_run_body0])

subsection \<open>The coefficients of the Chebyshev recurrence\<close>

lemma cheby_coeff_formula:
  assumes "k \<ge> 1" and "k \<ge> 2 \<longrightarrow> w_prev = Some (spec_w d c (k - 1))"
    and "cheby_coeff k d c w_prev = Inr (p, w)"
  shows "p = source_p d c k \<and> w = spec_w d c k"
proof -
  consider "k = 1" | "k = 2" | "k \<ge> 3" using assms(1) by linarith
  then show ?thesis
  proof cases
    case 1
    with assms(3) show ?thesis
      by (auto simp: cheby_coeff_def source_p_def and_then_def py_div_def split: if_splits)
  next
    case 2
    with assms(3) show ?thesis
      by (auto simp: cheby_coeff_def source_p_def and_then_def py_div_def power2_eq_square
          numeral_2_eq_2 split: if_splits)
  next
    case 3
    then obtain n where k: "k = Suc (Suc (Suc n))"
      by (metis One_nat_def Suc_1 Suc_le_D numeral_3_eq_3 Suc_le_mono)
    with assms(2) have wp: "w_prev = Some (spec_w d c (Suc (Suc n)))" by simp
    from assms(3) show ?thesis
      unfolding k wp
      by (auto simp: cheby_coeff_def source_p_def and_then_def py_div_def power2_eq_square
          split: if_splits)
  qed
qed

lemma cheby_body_uses:
  assumes "cheby_body ops Afun B rank tol callback FM d c r0 st = Inr st'"
  shows "\<exists>p w. cheby_coeff (Suc (ckit st)) d c (cw st) = Inr (p, w) \<and> cw st' = Some w \<and>
           cv st' = t_truncate ops (t_sub ops (cr st) (t_rmul ops p (cv st))) rank tol \<and>
           cx st' = mean_correct ops FM (t_add ops (cx st) (t_rmul ops w (cv st'))) rank tol"
  using assms
  by (auto simp: cheby_body_def and_then_def Let_def
      split: sum.splits option.splits if_splits prod.splits)

lemma cheby_reach_w:
  assumes "cheby_reach ops Afun B rank tol callback FM d c r0 ptol pmaxiter st0 st"
    and "ckit st0 = 0"
  shows "ckit st \<ge> 1 \<longrightarrow> cw st = Some (spec_w d c (ckit st))"
  using assms
proof (induction rule: cheby_reach.induct)
  case cheby_start
  then show ?case by simp
next
  case (cheby_pass st st')
  from cheby_body_uses [OF cheby_pass.hyps(3)] obtain p w
    where pw: "cheby_coeff (Suc (ckit st)) d c (cw st) = Inr (p, w)" and w: "cw st' = Some w"
    by blast
  have "w = spec_w d c (Suc (ckit st))"
    using cheby_coeff_formula [OF _ _ pw] cheby_pass.IH [OF cheby_pass.prems] by simp
  with w cheby_body_kit [OF cheby_pass.hyps(3)] show ?case by simp
qed

lemma cheby_loop_reach_eq:
  assumes "cheby_reach ops Afun B rank tol callback FM d c r0 ptol pmaxiter st0 st"
  shows "cheby_loop ops Afun B rank tol callback FM d c r0 ptol pmaxiter st0
         = cheby_loop ops Afun B rank tol callback FM d c r0 ptol pmaxiter st"
  using assms
proof (induction rule: cheby_reach.induct)
  case cheby_start
  show ?case by simp
next
  case (cheby_pass st st')
  have "cheby_loop ops Afun B rank tol callback FM d c r0 ptol pmaxiter st
        = cheby_loop ops Afun B rank tol callback FM d c r0 ptol pmaxiter st'"
    by (subst cheby_loop.simps) (simp add: cheby_pass.hyps)
  with cheby_pass.IH show ?case by simp
qed

lemma cheby2TERM_unfold:
  assumes "par = Some p" and "p_eigrange p = Some (lmin, lmax)"
    and "x = (case x0 of None \<Rightarrow> B | Some x0' \<Rightarrow> x0')"
    and "t_norm ops B \<noteq> 0" and "Afun x = Some Ax"
    and "\<not> 1 / t_norm ops B * t_norm ops (t_sub ops B Ax) < cheby_tol p"
  shows "cheby2TERM ops Afun B x0 rank tol par callback
         = and_then
             (cheby_loop ops Afun B rank tol callback (t_const_field ops x)
                ((lmax + lmin) / 2) ((lmax - lmin) / 2) (t_norm ops (t_sub ops B Ax))
                (cheby_tol p) (cheby_maxiter p) (cheby_init ops B x Ax))
             (cheby_tail (cheby_tol p))"
  using assms(2-6)
  unfolding assms(1) cheby2TERM_def cheby_tail_def and_then_def cheby_init_def cheby_tol_def
    cheby_maxiter_def Let_def option.case
  by (simp add: py_div_def apply_op_def py_get_def)

text \<open>
  C1, as amended. Take a call of \<open>cheby2TERM\<close> with \<open>par['eigrange'] = (\<lambda>_min, \<lambda>_max)\<close>,
  \<open>d = (\<lambda>_max + \<lambda>_min)/2\<close> and \<open>c = (\<lambda>_max - \<lambda>_min)/2\<close>, that gets past the early return of
  line 53, and a pass of its loop: the loop stands at its head in state \<open>st\<close>, the guard
  holds and the body takes \<open>st\<close> to \<open>st'\<close>. The call goes on from \<open>st'\<close>. The pass is number
  \<open>k = res['kit'] + 1\<close>, it computes \<open>w = spec_w d c k\<close> and \<open>p = source_p d c k\<close>, and it
  is with these that it forms \<open>v \<leftarrow> truncate(r - p v)\<close> and \<open>x \<leftarrow> x + w v\<close> before the mean
  correction: \<open>p = 0\<close>, \<open>w = 1/d\<close> at \<open>k = 1\<close>; \<open>p = -(1/2)(c/d)\<^sup>2\<close>,
  \<open>w = 1/(d - c\<^sup>2/(2d))\<close> at \<open>k = 2\<close>; \<open>p = -(c\<^sup>2/4) w_prev\<^sup>2\<close>,
  \<open>w = 1/(d - c\<^sup>2 w_prev/4)\<close> from \<open>k = 3\<close> on, \<open>w_prev\<close> being the \<open>w\<close> of pass \<open>k - 1\<close>.
\<close>

theorem cheby_coefficients:
  assumes "par = Some p" and "p_eigrange p = Some (lmin, lmax)"
    and "d = (lmax + lmin) / 2" and "c = (lmax - lmin) / 2"
    and "x = (case x0 of None \<Rightarrow> B | Some x0' \<Rightarrow> x0')"
    and "t_norm ops B \<noteq> 0" and "Afun x = Some Ax"
    and "r0 = t_norm ops (t_sub ops B Ax)"
    and "\<not> 1 / t_norm ops B * r0 < cheby_tol p"
    and "FM = t_const_field ops x"
    and "cheby_reach ops Afun B rank tol callback FM d c r0 (cheby_tol p) (cheby_maxiter p)
           (cheby_init ops B x Ax) st"
    and "cheby_guard (cheby_tol p) (cheby_maxiter p) st = Inr True"
    and "cheby_body ops Afun B rank tol callback FM d c r0 st = Inr st'"
  shows "cheby2TERM ops Afun B x0 rank tol par callback
           = and_then
               (cheby_loop ops Afun B rank tol callback FM d c r0 (cheby_tol p)
                  (cheby_maxiter p) st')
               (cheby_tail (cheby_tol p)) \<and>
         cheby_coeff (Suc (ckit st)) d c (cw st)
           = Inr (source_p d c (Suc (ckit st)), spec_w d c (Suc (ckit st))) \<and>
         cw st' = Some (spec_w d c (Suc (ckit st))) \<and>
         cv st' = t_truncate ops
                    (t_sub ops (cr st) (t_rmul ops (source_p d c (Suc (ckit st))) (cv st)))
                    rank tol \<and>
         cx st' = mean_correct ops FM
                    (t_add ops (cx st) (t_rmul ops (spec_w d c (Suc (ckit st))) (cv st')))
                    rank tol"
proof -
  have k0: "ckit (cheby_init ops B x Ax) = 0" by (simp add: cheby_init_def)
  from cheby_body_uses [OF assms(13)] obtain pk wk
    where pw: "cheby_coeff (Suc (ckit st)) d c (cw st) = Inr (pk, wk)"
      and rest: "cw st' = Some wk"
        "cv st' = t_truncate ops (t_sub ops (cr st) (t_rmul ops pk (cv st))) rank tol"
        "cx st' = mean_correct ops FM (t_add ops (cx st) (t_rmul ops wk (cv st'))) rank tol"
    by blast
  have "pk = source_p d c (Suc (ckit st)) \<and> wk = spec_w d c (Suc (ckit st))"
    using cheby_coeff_formula [OF _ _ pw] cheby_reach_w [OF assms(11) k0] by simp
  with pw rest have coeffs:
    "cheby_coeff (Suc (ckit st)) d c (cw st)
           = Inr (source_p d c (Suc (ckit st)), spec_w d c (Suc (ckit st)))"
    "cw st' = Some (spec_w d c (Suc (ckit st)))"
    "cv st' = t_truncate ops
                    (t_sub ops (cr st) (t_rmul ops (source_p d c (Suc (ckit st))) (cv st)))
                    rank tol"
    "cx st' = mean_correct ops FM
                    (t_add ops (cx st) (t_rmul ops (spec_w d c (Suc (ckit st))) (cv st')))
                    rank tol"
    by simp_all
  have "cheby2TERM ops Afun B x0 rank tol par callback
        = and_then
            (cheby_loop ops Afun B rank tol callback FM d c r0 (cheby_tol p)
               (cheby_maxiter p) (cheby_init ops B x Ax))
            (cheby_tail (cheby_tol p))"
    unfolding assms(3,4,8,10)
    by (rule cheby2TERM_unfold [where par = par and p = p and lmin = lmin and lmax = lmax
          and x = x and ?x0.0 = x0 and B = B and ops = ops and Afun = Afun and Ax = Ax
          and rank = rank and tol = tol and callback = callback,
          OF assms(1) assms(2) assms(5) assms(6) assms(7) assms(9) [unfolded assms(8)]])
  also have "cheby_loop ops Afun B rank tol callback FM d c r0 (cheby_tol p)
               (cheby_maxiter p) (cheby_init ops B x Ax)
             = cheby_loop ops Afun B rank tol callback FM d c r0 (cheby_tol p)
               (cheby_maxiter p) st'"
    by (rule cheby_loop_reach_eq [OF cheby_pass [OF assms(11,12,13)]])
  finally show ?thesis using coeffs by simp
qed

text \<open>The call with \<open>Afun = diag_op 1 3\<close>, \<open>B = (1, -1)\<close> and \<open>eigrange = (1, 3)\<close>: in its
  second pass \<open>p = -1/8\<close> and \<open>w = 4/7\<close>.\<close>

theorem cheby_coefficients_witness:
  "p_eigrange cheby_par = Some (1, 3) \<and> (2 :: real) = (3 + 1) / 2 \<and> (1 :: real) = (3 - 1) / 2 \<and>
   t_norm pair_ops (1, - 1) \<noteq> 0 \<and> diag_op 1 3 (1, - 1) = Some (1, - 3) \<and>
   2 = t_norm pair_ops (t_sub pair_ops (1, - 1) (1, - 3)) \<and>
   \<not> 1 / t_norm pair_ops (1, - 1) * 2 < cheby_tol cheby_par \<and>
   cheby_reach pair_ops (diag_op 1 3) (1, - 1) None None None (1, 1) 2 1 2
     (cheby_tol cheby_par) (cheby_maxiter cheby_par)
     (cheby_init pair_ops (1, - 1) (1, - 1) (1, - 3)) cheby_st1 \<and>
   cheby_guard (cheby_tol cheby_par) (cheby_maxiter cheby_par) cheby_st1 = Inr True \<and>
   cheby_body pair_ops (diag_op 1 3) (1, - 1) None None None (1, 1) 2 1 2 cheby_st1
     = Inr cheby_st2 \<and>
   cheby2TERM pair_ops (diag_op 1 3) (1, - 1) None None None (Some cheby_par) None
     = and_then
         (cheby_loop pair_ops (diag_op 1 3) (1, - 1) None None None (1, 1) 2 1 2
            (cheby_tol cheby_par) (cheby_maxiter cheby_par) cheby_st2)
         (cheby_tail (cheby_tol cheby_par)) \<and>
   cheby_coeff 2 2 1 (cw cheby_st1) = Inr (source_p 2 1 2, spec_w 2 1 2) \<and>
   source_p 2 1 2 = - 1 / 8 \<and> spec_w 2 1 2 = 4 / 7 \<and>
   cv cheby_st2 = (1 / 2, 3 / 4) \<and> cx cheby_st2 = (3 / 7, - 3 / 7)"
proof -
  have tl: "cheby_tol cheby_par = 1 / 1000000" "cheby_maxiter cheby_par = 10000000"
    by (simp_all add: cheby_tol_def cheby_maxiter_def cheby_par_def empty_par_def)
  have i0: "cheby_init pair_ops (1, - 1) (1, - 1) (1, - 3) = cheby_st0"
    by (simp add: cheby_init_def cheby_st0_def pair_ops_simps)
  have a2: "p_eigrange cheby_par = Some (1, 3)" by (simp add: cheby_par_def)
  have a3: "(2 :: real) = (3 + 1) / 2" and a4: "(1 :: real) = (3 - 1) / 2" by simp_all
  have a6: "t_norm pair_ops (1, - 1) \<noteq> 0" by (simp add: pair_ops_simps)
  have a7: "diag_op 1 3 (case None of None \<Rightarrow> (1, - 1) | Some x0' \<Rightarrow> x0') = Some (1, - 3)"
    by (simp add: diag_op_def)
  have a8: "2 = t_norm pair_ops (t_sub pair_ops (1, - 1) (1, - 3))"
    by (simp add: pair_ops_simps)
  have a9: "\<not> 1 / t_norm pair_ops (1, - 1) * 2 < cheby_tol cheby_par"
    by (simp add: pair_ops_simps tl)
  have a10: "(1, 1) = t_const_field pair_ops (case None of None \<Rightarrow> (1, - 1) | Some x0' \<Rightarrow> x0')"
    by (simp add: pair_ops_simps)
  have a11: "cheby_reach pair_ops (diag_op 1 3) (1, - 1) None None None (1, 1) 2 1 2
     (cheby_tol cheby_par) (cheby_maxiter cheby_par)
     (cheby_init pair_ops (1, - 1) (case None of None \<Rightarrow> (1, - 1) | Some x0' \<Rightarrow> x0') (1, - 3))
     cheby_st1"
    using cheby_run_reach1 by (simp add: tl i0)
  have a12: "cheby_guard (cheby_tol cheby_par) (cheby_maxiter cheby_par) cheby_st1 = Inr True"
    using cheby_run_guard1 by (simp add: tl)
  have k1: "Suc (ckit cheby_st1) = 2" by (simp add: cheby_st1_def)
  have pv: "source_p 2 1 2 = - 1 / 8" by (simp add: source_p_def power2_eq_square)
  have wv: "spec_w 2 1 2 = 4 / 7" by (simp add: numeral_2_eq_2 power2_eq_square)
  have st2: "cv cheby_st2 = (1 / 2, 3 / 4)" "cx cheby_st2 = (3 / 7, - 3 / 7)"
    by (simp_all add: cheby_st2_def)
  note inst = cheby_coefficients [OF refl a2 a3 a4 refl a6 a7 a8 a9 a10 a11 a12
      cheby_run_body1]
  from inst have c1: "cheby2TERM pair_ops (diag_op 1 3) (1, - 1) None None None (Some cheby_par) None
     = and_then
         (cheby_loop pair_ops (diag_op 1 3) (1, - 1) None None None (1, 1) 2 1 2
            (cheby_tol cheby_par) (cheby_maxiter cheby_par) cheby_st2)
         (cheby_tail (cheby_tol cheby_par))"
    by simp
  from inst have c2: "cheby_coeff 2 2 1 (cw cheby_st1) = Inr (source_p 2 1 2, spec_w 2 1 2)"
    unfolding k1 by simp
  have a7': "diag_op 1 3 (1, - 1) = Some (1, - 3)" by (simp add: diag_op_def)
  have a11': "cheby_reach pair_ops (diag_op 1 3) (1, - 1) None None None (1, 1) 2 1 2
     (cheby_tol cheby_par) (cheby_maxiter cheby_par)
     (cheby_init pair_ops (1, - 1) (1, - 1) (1, - 3)) cheby_st1"
    using a11 by simp
  from a2 a3 a4 a6 a7' a8 a9 a11' a12 cheby_run_body1 c1 c2 pv wv st2
  show ?thesis by (intro conjI)
qed

text \<open>C1 as the specification states it has \<open>p = -(c/(2d))\<^sup>2\<close> at \<open>k = 2\<close>. The call with
  \<open>Afun = diag_op 1 3\<close>, \<open>B = (1, -1)\<close> and \<open>eigrange = (1, 3)\<close>, so \<open>d = (3 + 1)/2\<close> and
  \<open>c = (3 - 1)/2\<close>, comes to the head of its second pass (it goes on from \<open>cheby_st1\<close>, where
  \<open>res['kit'] = 1\<close>), the guard holds, and line 68 gives \<open>p = -1/8\<close>, where the stated
  formula gives \<open>-1/16\<close>.\<close>

theorem cheby_second_coefficient_counterexample:
  "p_eigrange cheby_par = Some (1, 3) \<and>
   cheby2TERM pair_ops (diag_op 1 3) (1, - 1) None None None (Some cheby_par) None
     = and_then
         (cheby_loop pair_ops (diag_op 1 3) (1, - 1) None None None (1, 1)
            ((3 + 1) / 2) ((3 - 1) / 2) 2 (cheby_tol cheby_par) (cheby_maxiter cheby_par)
            cheby_st1)
         (cheby_tail (cheby_tol cheby_par)) \<and>
   cheby_guard (cheby_tol cheby_par) (cheby_maxiter cheby_par) cheby_st1 = Inr True \<and>
   ckit cheby_st1 = 1 \<and>
   cheby_coeff 2 ((3 + 1) / 2) ((3 - 1) / 2) (cw cheby_st1) = Inr (- 1 / 8, 4 / 7) \<and>
   spec_p ((3 + 1) / 2) ((3 - 1) / 2) 2 = - 1 / 16"
proof -
  have tl: "cheby_tol cheby_par = 1 / 1000000" "cheby_maxiter cheby_par = 10000000"
    by (simp_all add: cheby_tol_def cheby_maxiter_def cheby_par_def empty_par_def)
  have i0: "cheby_init pair_ops (1, - 1) (1, - 1) (1, - 3) = cheby_st0"
    by (simp add: cheby_init_def cheby_st0_def pair_ops_simps)
  have e: "p_eigrange cheby_par = Some (1, 3)" by (simp add: cheby_par_def)
  have "cheby2TERM pair_ops (diag_op 1 3) (1, - 1) None None None (Some cheby_par) None
        = and_then
            (cheby_loop pair_ops (diag_op 1 3) (1, - 1) None None None (1, 1)
               2 1 2 (1 / 1000000) 10000000 cheby_st0)
            (cheby_tail (1 / 1000000))"
    using cheby2TERM_unfold [where par = "Some cheby_par" and p = cheby_par and lmin = 1
        and lmax = 3 and x = "(1, - 1)" and ?x0.0 = None and B = "(1, - 1)" and ops = pair_ops
        and Afun = "diag_op 1 3" and Ax = "(1, - 3)" and rank = None and tol = None
        and callback = None] e
    by (simp add: pair_ops_simps diag_op_def tl i0)
  then have c: "cheby2TERM pair_ops (diag_op 1 3) (1, - 1) None None None (Some cheby_par) None
     = and_then
         (cheby_loop pair_ops (diag_op 1 3) (1, - 1) None None None (1, 1)
            ((3 + 1) / 2) ((3 - 1) / 2) 2 (cheby_tol cheby_par) (cheby_maxiter cheby_par)
            cheby_st1)
         (cheby_tail (cheby_tol cheby_par))"
    using cheby_loop_reach_eq [OF cheby_run_reach1] by (simp add: tl)
  have g: "cheby_guard (cheby_tol cheby_par) (cheby_maxiter cheby_par) cheby_st1 = Inr True"
    using cheby_run_guard1 by (simp add: tl)
  have k: "ckit cheby_st1 = 1" by (simp add: cheby_st1_def)
  have co: "cheby_coeff 2 ((3 + 1) / 2) ((3 - 1) / 2) (cw cheby_st1) = Inr (- 1 / 8, 4 / 7)"
    by (simp add: cheby_coeff_def cheby_st1_def and_then_def py_div_def)
  have sp: "spec_p ((3 + 1) / 2) ((3 - 1) / 2) 2 = - 1 / 16"
    by (simp add: spec_p_def power2_eq_square)
  from e c g k co sp show ?thesis by (intro conjI)
qed

subsection \<open>The errors of cheby2TERM\<close>

lemma cheby_body_err:
  "cheby_body ops Afun B rank tol callback FM d c r0 st \<noteq> Inl NotImplementedError"
  by (auto simp: cheby_body_def cheby_coeff_def and_then_def py_div_def apply_op_def Let_def
      split: sum.splits option.splits if_splits prod.splits)

lemma cheby_loop_err:
  "cheby_loop ops Afun B rank tol callback FM d c r0 ptol pmaxiter st \<noteq> Inl NotImplementedError"
proof (induction ops Afun B rank tol callback FM d c r0 ptol pmaxiter st rule: cheby_loop.induct)
  case (1 ops Afun B rank tol callback FM d c r0 ptol pmaxiter st)
  show ?case
  proof (cases "cheby_guard ptol pmaxiter st")
    case (Inl e)
    then have "e \<noteq> NotImplementedError"
      by (auto simp: cheby_guard_def and_then_def py_get_def split: sum.splits if_splits)
    with Inl show ?thesis by (subst cheby_loop.simps) simp
  next
    case g: (Inr go)
    show ?thesis
    proof (cases go)
      case False
      with g show ?thesis by (subst cheby_loop.simps) simp
    next
      case True
      show ?thesis
      proof (cases "cheby_body ops Afun B rank tol callback FM d c r0 st")
        case (Inl e)
        with cheby_body_err [of ops Afun B rank tol callback FM d c r0 st]
        have "e \<noteq> NotImplementedError" by auto
        with Inl g True show ?thesis by (subst cheby_loop.simps) simp
      next
        case (Inr st')
        from "1.IH" [OF g True Inr] show ?thesis
          using Inr g True by (subst cheby_loop.simps) simp
      qed
    qed
  qed
qed

text \<open>
  C10, as amended. \<open>cheby2TERM\<close> raises the error of line 31 (\<open>NotImplementedError\<close>)
  exactly when \<open>'eigrange'\<close> is absent from the parameters (\<open>par\<close> is \<open>None\<close>, or a
  dictionary without the key). The equivalence holds for every operator, right-hand side,
  initial guess and callback, also for an operator that raises on every call: the error
  comes before the first residual, the first application of the operator and the first
  pass of the loop. It is not the only fatal error of a call: with \<open>'eigrange'\<close> present,
  what the operator raises and a division by zero in the recurrence end the call as well.
\<close>

theorem cheby2TERM_eigrange_error:
  "cheby2TERM ops Afun B x0 rank tol par callback = Inl NotImplementedError \<longleftrightarrow>
   (case par of None \<Rightarrow> True | Some p \<Rightarrow> p_eigrange p = None)"
  using cheby_loop_err [of ops Afun B rank tol callback]
  by (auto simp: cheby2TERM_def empty_par_def and_then_def py_div_def apply_op_def py_get_def
      py_lt_float_list_def Let_def
      split: sum.splits option.splits if_splits prod.splits)

text \<open>C10 as the specification states it has no fatal error when \<open>'eigrange'\<close> is there.
  With \<open>eigrange = (1, 3)\<close> and an operator that raises, the call ends in the operator's
  error at line 48; with \<open>eigrange = (-1, 1)\<close>, so \<open>d = 0\<close>, the first pass of the loop
  raises \<open>ZeroDivisionError\<close> at \<open>w = 1/d\<close>.\<close>

theorem cheby2TERM_other_errors_counterexample:
  "p_eigrange cheby_par = Some (1, 3) \<and>
   cheby2TERM pair_ops (\<lambda>x. None) (1, - 1) None None None (Some cheby_par) None
     = Inl OperatorError \<and>
   p_eigrange sym_par = Some (- 1, 1) \<and>
   cheby2TERM pair_ops (diag_op 2 2) (1, - 1) None None None (Some sym_par) None
     = Inl ZeroDivisionError"
proof -
  have "cheby_loop pair_ops (diag_op 2 2) (1, - 1) None None None (1, 1) 0 1 2
          (1 / 1000000) 10000000 cheby_sc0 = Inl ZeroDivisionError"
    by (subst cheby_loop.simps)
      (simp add: cheby_guard_def cheby_body_def cheby_coeff_def and_then_def py_div_def
        py_get_def cheby_sc0_def)
  then have "cheby2TERM pair_ops (diag_op 2 2) (1, - 1) None None None (Some sym_par) None
     = Inl ZeroDivisionError"
    by (simp add: cheby2TERM_def sym_par_def empty_par_def and_then_def py_div_def
        diag_op_def apply_op_def py_get_def pair_ops_simps cheby_sc0_def)
  moreover
  have "cheby2TERM pair_ops (\<lambda>x. None) (1, - 1) None None None (Some cheby_par) None
     = Inl OperatorError"
    by (simp add: cheby2TERM_def cheby_par_def empty_par_def and_then_def py_div_def
        apply_op_def pair_ops_simps)
  ultimately show ?thesis by (simp add: cheby_par_def sym_par_def)
qed

text \<open>
  C6. For a right-hand side of norm zero the specification has \<open>\<parallel>B\<parallel>\<close> replaced by 1, no
  division by zero and an immediate return. Line 39 computes \<open>Ib = 1.0/bnrm2\<close> before
  line 40 tests \<open>bnrm2 == 0\<close>, and \<open>bnrm2\<close> is not read again: for \<open>B = (0, 0)\<close> the call
  ends in \<open>ZeroDivisionError\<close>.
\<close>

theorem cheby2TERM_zero_rhs:
  "cheby2TERM pair_ops (diag_op 2 2) (0, 0) None None None (Some cheby_par) None
   = Inl ZeroDivisionError"
  by (simp add: cheby2TERM_def cheby_par_def empty_par_def pair_ops_simps and_then_def
      py_div_def)

text \<open>
  C7. The specification has the final report decided by the last normalised residual and
  never fatal. Line 87 compares \<open>par['tol']\<close> with the list \<open>res['norm_res']\<close>. For
  \<open>Afun = diag_op 2 2\<close> and \<open>B = (1, -1)\<close> the first pass reaches the exact solution
  \<open>(1/2, -1/2)\<close> with residual \<open>0\<close>, the loop ends, and the comparison raises \<open>TypeError\<close>.
\<close>

theorem cheby2TERM_report_raises:
  "cheby2TERM pair_ops (diag_op 2 2) (1, - 1) None None None (Some cheby_par) None
   = Inl TypeError"
proof -
  have "cheby_loop pair_ops (diag_op 2 2) (1, - 1) None None None (1, 1) 2 1 2
          (1 / 1000000) 10000000
          \<lparr>cx = (1, - 1), cr = (- 1, 1), cv = (0, 0), cw = None, chist = [1], ckit = 0\<rparr>
        = Inr \<lparr>cx = (1 / 2, - 1 / 2), cr = (0, 0), cv = (- 1, 1), cw = Some (1 / 2),
               chist = [1, 0], ckit = 1\<rparr>"
    apply (subst cheby_loop.simps)
    apply (simp add: cheby_guard_def cheby_body_def cheby_coeff_def and_then_def py_div_def
        py_get_def apply_op_def diag_op_def pair_ops_simps mean_correct_def)
    apply (subst cheby_loop.simps)
    apply (simp add: cheby_guard_def and_then_def py_get_def)
    done
  then show ?thesis
    by (simp add: cheby2TERM_def cheby_par_def empty_par_def and_then_def py_div_def
      diag_op_def apply_op_def py_get_def py_lt_float_list_def pair_ops_simps)
qed

lemma cheby_run2_loop:
  "cheby_loop pair_ops (diag_op 2 2) (1, - 1) None None None (1, 1) 2 1 2
     (1 / 1000000) 10000000 cheby_sc0 = Inr cheby_sc1"
  apply (subst cheby_loop.simps)
  apply (simp add: cheby_guard_def cheby_body_def cheby_coeff_def and_then_def py_div_def
      py_get_def apply_op_def diag_op_def pair_ops_simps mean_correct_def cheby_sc0_def)
  apply (subst cheby_loop.simps)
  apply (simp add: cheby_guard_def and_then_def py_get_def cheby_sc1_def)
  done

lemma solver_par_simps:
  "subscript (Some solver_par) p_tol = Inr (1 / 1000000)"
  "subscript (Some solver_par) p_maxiter = Inr 100"
  "subscript (Some solver_par) p_approx_omega = Inr True"
  "subscript (Some solver_par) p_divcrit = Inr True"
  "subscript (Some solver_par) p_alpha = Inr (PyFloat 1)"
  "subscript (Some exact_par) p_tol = Inr (1 / 1000000)"
  "subscript (Some exact_par) p_maxiter = Inr 100"
  "subscript (Some exact_par) p_approx_omega = Inr False"
  "subscript (Some exact_par) p_divcrit = Inr True"
  by (simp_all add: subscript_def solver_par_def exact_par_def)

lemma minres_rund_guard:
  "loop_guard (Some solver_par) (mnorm_res minres_sd0) (mkit minres_sd0) = Inr True"
  by (simp add: loop_guard_def solver_par_simps and_then_def minres_sd0_def)

lemma minres_rund_omega:
  "minres_omega pair_ops (t_norm_nd pair_ops) (Some solver_par) (mnorm_res minres_sd0)
     (mbeta minres_sd0) (mresiduum minres_sd0) = Inr 1"
  by (simp add: minres_omega_def solver_par_simps and_then_def py_div_def pair_ops_simps
      minres_sd0_def)

lemma minres_rund_next_x:
  "minres_next_x pair_ops (1, 1) None None minres_sd0 1 = (1 / 2, - 1 / 2)"
  by (simp add: minres_next_x_def mean_correct_def pair_ops_simps minres_sd0_def)

lemma minres_rund_next_residuum:
  "minres_next_residuum pair_ops (diag_op (- 1) (- 1)) (1, 0) None None minres_sd0 1
     (Suc (mkit minres_sd0)) (1 / 2, - 1 / 2) = Inr (2, 0)"
  by (simp add: minres_next_residuum_def pair_ops_simps minres_sd0_def)

lemma minres_rund_body:
  "minres_body pair_ops (diag_op (- 1) (- 1)) (1, 0) None None (Some solver_par)
     (t_norm_nd pair_ops) (1, 1) minres_sd0 = Inr (True, minres_sd1)"
  using minres_rund_omega minres_rund_next_x minres_rund_next_residuum
  by (simp add: minres_body_def and_then_def diverging_def solver_par_simps py_get_def
      pair_ops_simps minres_sd0_def minres_sd1_def)

lemma minres_rund_loop:
  "minres_loop pair_ops (diag_op (- 1) (- 1)) (1, 0) None None (Some solver_par)
     (t_norm_nd pair_ops) (1, 1) minres_sd0 = Inr minres_sd1"
  by (subst minres_loop.simps) (simp add: minres_rund_guard minres_rund_body)

lemma minres_rund:
  "minimal_residual pair_ops (diag_op (- 1) (- 1)) (1, 0) (Some (0, 0)) None None
     (Some solver_par) None = Inr ((1 / 2, - 1 / 2), \<lparr>norm_res = Seq [1], kit = 1\<rparr>)"
  using minres_rund_loop
  by (simp add: minimal_residual_def and_then_def apply_op_def diag_op_def py_get_def
      pair_ops_simps minres_sd0_def minres_sd1_def)

lemma minres_rune_guard:
  "loop_guard (Some exact_par) (mnorm_res minres_se0) (mkit minres_se0) = Inr True"
  by (simp add: loop_guard_def solver_par_simps and_then_def minres_se0_def)

lemma minres_rune_body:
  "minres_body pair_ops (diag_op 2 2) (1, - 1) None None (Some exact_par)
     (t_norm_nd pair_ops) (1, 1) minres_se0 = Inr (False, minres_se1)"
  by (simp add: minres_body_def minres_omega_def minres_next_x_def minres_next_residuum_def
      mean_correct_def and_then_def diverging_def solver_par_simps py_get_def py_div_def
      apply_op_def diag_op_def pair_ops_simps minres_se0_def minres_se1_def)

lemma minres_rune_reach:
  "minres_reach pair_ops (diag_op 2 2) (1, - 1) None None (Some exact_par)
     (t_norm_nd pair_ops) (1, 1) minres_se0 minres_se1"
  by (rule minres_pass [OF minres_start minres_rune_guard minres_rune_body])

lemma rich_guard0:
  "loop_guard (Some solver_par) (rnorm_res rich_st0) (rkit rich_st0) = Inr True"
  by (simp add: loop_guard_def solver_par_simps and_then_def rich_st0_def)

lemma rich_body0:
  "richardson_body pair_ops (diag_op 3 3) (1, - 1) None None (Some solver_par)
     (t_norm pair_ops) (1, 1) 1 rich_st0 = Inr (False, rich_st1)"
  by (simp add: richardson_body_def richardson_next_x_def mean_correct_def and_then_def
      diverging_def solver_par_simps py_get_def apply_op_def diag_op_def pair_ops_simps
      rich_st0_def rich_st1_def)

lemma rich_guard1:
  "loop_guard (Some solver_par) (rnorm_res rich_st1) (rkit rich_st1) = Inr True"
  by (simp add: loop_guard_def solver_par_simps and_then_def rich_st1_def)

lemma rich_body1:
  "richardson_body pair_ops (diag_op 3 3) (1, - 1) None None (Some solver_par)
     (t_norm pair_ops) (1, 1) 1 rich_st1 = Inr (True, rich_st2)"
  by (simp add: richardson_body_def and_then_def diverging_def solver_par_simps py_get_def
      apply_op_def diag_op_def pair_ops_simps rich_st1_def rich_st2_def)


lemma rich_loop:
  "richardson_loop pair_ops (diag_op 3 3) (1, - 1) None None (Some solver_par)
     (t_norm pair_ops) (1, 1) 1 rich_st0 = Inr rich_st2"
  apply (subst richardson_loop.simps)
  apply (simp add: rich_guard0 rich_body0)
  apply (subst richardson_loop.simps)
  apply (simp add: rich_guard1 rich_body1)
  done

lemma rich_run:
  "richardson_run pair_ops (diag_op 3 3) (1, - 1) (Some (0, 0)) None None (Some solver_par)
     None 1 = Inr ((1, - 1), \<lparr>norm_res = Seq [2, 2], kit = 2\<rparr>)"
  using rich_loop
  by (simp add: richardson_run_def and_then_def pair_ops_simps rich_st0_def rich_st2_def)

lemma rich_debug_run:
  "richardson_debug_run pair_ops (diag_op 1 1) (1, 0) None None None (Some solver_par)
     None 1 = Inr ((1, 0), \<lparr>norm_res = Seq [0, 0], kit = 1\<rparr>)"
proof -
  have "richardson_debug_loop pair_ops (diag_op 1 1) (1, 0) None None (Some solver_par)
          (t_norm pair_ops) 1 \<lparr>rx = (1, 0), rnorm_res = 10 ^ 15, rhist = [], rkit = 0\<rparr>
        = Inr \<lparr>rx = (1, 0), rnorm_res = 0, rhist = [0], rkit = 1\<rparr>"
    apply (subst richardson_debug_loop.simps)
    apply (simp add: loop_guard_def solver_par_simps and_then_def richardson_debug_body_def
        apply_op_def diag_op_def pair_ops_simps)
    apply (subst richardson_debug_loop.simps)
    apply (simp add: loop_guard_def solver_par_simps and_then_def)
    done
  then show ?thesis
    by (simp add: richardson_debug_run_def and_then_def apply_op_def diag_op_def
        pair_ops_simps)
qed

lemma rich_top:
  "richardson pair_ops (diag_op 3 3) (1, - 1) (Some (0, 0)) None None (Some solver_par) None
   = Inr ((1, - 1), \<lparr>norm_res = Seq [2, 2], kit = 2\<rparr>)"
  using rich_run
  by (simp add: richardson_def richardson_omega_def solver_par_simps and_then_def py_div_def)

lemma pair_mean_laws: "mean_laws pair_ops rank tol 0"
  by (simp add: mean_laws_def pair_ops_def split_paired_all field_simps)

subsection \<open>The mean correction\<close>

lemma mean_correct_mean:
  assumes "mean_laws ops rank tol eps"
  shows "\<bar>t_mean ops (mean_correct ops (t_const_field ops xi) y rank tol)\<bar> \<le> eps"
proof -
  let ?inner = "t_add ops (t_mul ops (t_neg ops (t_const_field ops xi)) (t_mean ops y)) y"
  from assms have "t_mean ops ?inner = - 1 * t_mean ops y + t_mean ops y"
    by (simp add: mean_laws_def)
  then have z: "t_mean ops ?inner = 0" by simp
  from assms have "\<bar>t_mean ops (t_truncate ops ?inner rank tol) - t_mean ops ?inner\<bar> \<le> eps"
    unfolding mean_laws_def by blast
  with z show ?thesis by (simp add: mean_correct_def)
qed

lemma corrected_mean:
  "corrected ops (t_const_field ops xi) rank tol x \<Longrightarrow> mean_laws ops rank tol eps \<Longrightarrow>
   \<bar>t_mean ops x\<bar> \<le> eps"
  using mean_correct_mean [of ops rank tol eps xi] by (auto simp: corrected_def)

lemma cheby_body_corrected:
  "cheby_body ops Afun B rank tol callback FM d c r0 st = Inr st' \<Longrightarrow>
   corrected ops FM rank tol (cx st')"
  using cheby_body_uses [of ops Afun B rank tol callback FM d c r0 st st']
  by (auto simp: corrected_def)

lemma minres_body_corrected:
  "minres_body ops Afun B rank tol par nrm FM st = Inr (brk, st') \<Longrightarrow>
   corrected ops FM rank tol (mx st')"
  by (auto simp: minres_body_def minres_next_x_def and_then_def Let_def corrected_def
      split: sum.splits if_splits)

lemma richardson_body_corrected:
  "richardson_body ops Afun B rank tol par nrm FM omega st = Inr (brk, st') \<Longrightarrow>
   (if brk then rx st' = rx st \<and> rhist st' = rhist st
    else corrected ops FM rank tol (rx st'))"
  by (auto simp: richardson_body_def richardson_next_x_def and_then_def Let_def corrected_def
      split: sum.splits if_splits)

lemma cheby_loop_corrected:
  "cheby_loop ops Afun B rank tol callback FM d c r0 ptol pmaxiter st = Inr st' \<Longrightarrow>
   st' = st \<or> corrected ops FM rank tol (cx st')"
proof (induction ops Afun B rank tol callback FM d c r0 ptol pmaxiter st rule: cheby_loop.induct)
  case (1 ops Afun B rank tol callback FM d c r0 ptol pmaxiter st)
  from "1.prems" obtain go where g: "cheby_guard ptol pmaxiter st = Inr go"
    by (subst (asm) cheby_loop.simps) (auto split: sum.splits)
  show ?case
  proof (cases go)
    case False
    with g "1.prems" show ?thesis by (subst (asm) cheby_loop.simps) simp
  next
    case True
    with g "1.prems" obtain st1
      where b: "cheby_body ops Afun B rank tol callback FM d c r0 st = Inr st1"
        and l: "cheby_loop ops Afun B rank tol callback FM d c r0 ptol pmaxiter st1 = Inr st'"
      by (subst (asm) cheby_loop.simps) (auto split: sum.splits)
    from "1.IH" [OF g True b l] cheby_body_corrected [OF b] show ?thesis by auto
  qed
qed

lemma minres_loop_corrected:
  "minres_loop ops Afun B rank tol par nrm FM st = Inr st' \<Longrightarrow>
   st' = st \<or> corrected ops FM rank tol (mx st')"
proof (induction ops Afun B rank tol par nrm FM st rule: minres_loop.induct)
  case (1 ops Afun B rank tol par nrm FM st)
  from "1.prems" obtain go where g: "loop_guard par (mnorm_res st) (mkit st) = Inr go"
    by (subst (asm) minres_loop.simps) (auto split: sum.splits)
  show ?case
  proof (cases go)
    case False
    with g "1.prems" show ?thesis by (subst (asm) minres_loop.simps) simp
  next
    case True
    with g "1.prems" obtain brk st1
      where b: "minres_body ops Afun B rank tol par nrm FM st = Inr (brk, st1)"
        and l: "if brk then st' = st1
                else minres_loop ops Afun B rank tol par nrm FM st1 = Inr st'"
      by (subst (asm) minres_loop.simps) (auto split: sum.splits if_splits)
    show ?thesis
    proof (cases brk)
      case True
      with l minres_body_corrected [OF b] show ?thesis by simp
    next
      case False
      with l have "minres_loop ops Afun B rank tol par nrm FM st1 = Inr st'" by simp
      from "1.IH" [OF g \<open>go\<close> b refl False this] minres_body_corrected [OF b]
      show ?thesis by auto
    qed
  qed
qed

lemma richardson_loop_corrected:
  "richardson_loop ops Afun B rank tol par nrm FM omega st = Inr st' \<Longrightarrow>
   (rx st' = rx st \<and> rhist st' = rhist st) \<or> corrected ops FM rank tol (rx st')"
proof (induction ops Afun B rank tol par nrm FM omega st rule: richardson_loop.induct)
  case (1 ops Afun B rank tol par nrm FM omega st)
  from "1.prems" obtain go where g: "loop_guard par (rnorm_res st) (rkit st) = Inr go"
    by (subst (asm) richardson_loop.simps) (auto split: sum.splits)
  show ?case
  proof (cases go)
    case False
    with g "1.prems" show ?thesis by (subst (asm) richardson_loop.simps) simp
  next
    case True
    with g "1.prems" obtain brk st1
      where b: "richardson_body ops Afun B rank tol par nrm FM omega st = Inr (brk, st1)"
        and l: "if brk then st' = st1
                else richardson_loop ops Afun B rank tol par nrm FM omega st1 = Inr st'"
      by (subst (asm) richardson_loop.simps) (auto split: sum.splits if_splits)
    show ?thesis
    proof (cases brk)
      case True
      with l richardson_body_corrected [OF b] show ?thesis by simp
    next
      case False
      with l have "richardson_loop ops Afun B rank tol par nrm FM omega st1 = Inr st'" by simp
      from "1.IH" [OF g \<open>go\<close> b refl False this] richardson_body_corrected [OF b] False
      show ?thesis by auto
    qed
  qed
qed

lemma minimal_residual_corrected:
  assumes "minimal_residual ops Afun B x0 rank tol par norm_arg = Inr (x, res)"
    and "1 \<le> kit res"
  shows "\<exists>xi. corrected ops (t_const_field ops xi) rank tol x"
proof -
  from assms(1) obtain nrm xi r b n st where
    l: "minres_loop ops Afun B rank tol par nrm (t_const_field ops xi)
          \<lparr>mx = xi, mresiduum = r, mbeta = b, mnorm_res = n, mhist = [nrm r], mkit = 0\<rparr>
        = Inr st"
    and r: "x = mx st" "kit res = mkit st"
    by (auto simp: minimal_residual_def and_then_def Let_def split: sum.splits)
  from minres_loop_corrected [OF l] assms(2) r
  have "corrected ops (t_const_field ops xi) rank tol x" by auto
  then show ?thesis ..
qed

lemma richardson_corrected:
  assumes "richardson ops Afun B x0 rank tol par norm_arg = Inr (x, res)"
    and "norm_res res = Seq h" and "2 \<le> length h"
  shows "\<exists>xi. corrected ops (t_const_field ops xi) rank tol x"
proof -
  from assms(1) obtain omega nrm xi st where
    l: "richardson_loop ops Afun B rank tol par nrm (t_const_field ops xi) omega
          \<lparr>rx = xi, rnorm_res = 10 ^ 15, rhist = [nrm B], rkit = 0\<rparr> = Inr st"
    and r: "x = rx st" "norm_res res = Seq (rhist st)"
    by (auto simp: richardson_def richardson_run_def and_then_def Let_def split: sum.splits)
  from richardson_loop_corrected [OF l] assms(2,3) r
  have "corrected ops (t_const_field ops xi) rank tol x" by auto
  then show ?thesis ..
qed

lemma cheby_tail_of_loop:
  assumes "par = Some p" and "p_eigrange p = Some (lmin, lmax)"
    and "xi = (case x0 of None \<Rightarrow> B | Some x0' \<Rightarrow> x0')"
    and "t_norm ops B \<noteq> 0" and "Afun xi = Some Ax"
    and "\<not> 1 / t_norm ops B * t_norm ops (t_sub ops B Ax) < cheby_tol p"
    and "cheby_loop ops Afun B rank tol callback (t_const_field ops xi)
           ((lmax + lmin) / 2) ((lmax - lmin) / 2) (t_norm ops (t_sub ops B Ax))
           (cheby_tol p) (cheby_maxiter p) (cheby_init ops B xi Ax) = Inr cst'"
  shows "cheby2TERM ops Afun B x0 rank tol par callback = cheby_tail (cheby_tol p) cst'"
  unfolding cheby2TERM_unfold [where par = par and p = p and lmin = lmin and lmax = lmax
      and x = xi and ?x0.0 = x0 and B = B and ops = ops and Afun = Afun and Ax = Ax
      and rank = rank and tol = tol and callback = callback,
      OF assms(1) assms(2) assms(3) assms(4) assms(5) assms(6)]
  by (simp add: assms(7) and_then_def)

text \<open>
  C2, as amended. In \<open>cheby2TERM\<close>, \<open>minimal_residual\<close> and \<open>richardson\<close> every pass that
  updates the iterate ends the update with \<open>x \<leftarrow> truncate(-FM mean(x) + x)\<close>, so that the
  mean of the iterate is zero within the truncation tolerance after every such pass, and
  so is the mean of the iterate with which the call ends after at least one of them. The
  tolerance \<open>eps\<close> is what a truncation may do to the mean; the tensor class is taken to
  have a linear mean and a constant field of mean 1 (\<open>mean_laws\<close>).
  \<^item> A pass of the body of each of the three loops leaves an iterate of mean at most
    \<open>eps\<close> in magnitude (in \<open>richardson\<close>: a pass that does not end in \<open>break\<close>, the other
    leaves the iterate alone).
  \<^item> When the loop of a call of \<open>cheby2TERM\<close> ends after at least one pass, the call ends
    with lines 87 to 94 on the state the loop has left, and the iterate of that state has
    such a mean.
  \<^item> The iterate that \<open>minimal_residual\<close> returns with \<open>res['kit'] >= 1\<close> has such a mean.
  \<^item> The iterate that \<open>richardson\<close> returns with a history of at least two entries (one
    pass has appended) has such a mean.
  \<open>richardson_debug\<close> is not among them: it truncates and never corrects the mean.
\<close>

theorem mean_correction_applied:
  assumes "mean_laws ops rank tol eps"
  shows
  "(cheby_body ops Afun B rank tol callback (t_const_field ops xi) d c r0 cst = Inr cst' \<longrightarrow>
      \<bar>t_mean ops (cx cst')\<bar> \<le> eps) \<and>
   (minres_body ops Afun B rank tol par nrm (t_const_field ops xi) mst = Inr (brk, mst') \<longrightarrow>
      \<bar>t_mean ops (mx mst')\<bar> \<le> eps) \<and>
   (richardson_body ops Afun B rank tol par nrm (t_const_field ops xi) omega rst
      = Inr (False, rst') \<longrightarrow>
      \<bar>t_mean ops (rx rst')\<bar> \<le> eps) \<and>
   (par = Some p \<and> p_eigrange p = Some (lmin, lmax) \<and>
    xi = (case x0 of None \<Rightarrow> B | Some x0' \<Rightarrow> x0') \<and>
    t_norm ops B \<noteq> 0 \<and> Afun xi = Some Ax \<and>
    \<not> 1 / t_norm ops B * t_norm ops (t_sub ops B Ax) < cheby_tol p \<and>
    cheby_loop ops Afun B rank tol callback (t_const_field ops xi)
      ((lmax + lmin) / 2) ((lmax - lmin) / 2) (t_norm ops (t_sub ops B Ax))
      (cheby_tol p) (cheby_maxiter p) (cheby_init ops B xi Ax) = Inr cend \<and>
    1 \<le> ckit cend \<longrightarrow>
      cheby2TERM ops Afun B x0 rank tol par callback = cheby_tail (cheby_tol p) cend \<and>
      \<bar>t_mean ops (cx cend)\<bar> \<le> eps) \<and>
   (minimal_residual ops Afun B x0 rank tol par norm_arg = Inr (xm, resm) \<and>
    1 \<le> kit resm \<longrightarrow>
      \<bar>t_mean ops xm\<bar> \<le> eps) \<and>
   (richardson ops Afun B x0 rank tol par norm_arg = Inr (xr, resr) \<and>
    norm_res resr = Seq h \<and> 2 \<le> length h \<longrightarrow>
      \<bar>t_mean ops xr\<bar> \<le> eps)"
proof (intro conjI impI)
  assume "cheby_body ops Afun B rank tol callback (t_const_field ops xi) d c r0 cst = Inr cst'"
  from corrected_mean [OF cheby_body_corrected [OF this] assms]
  show "\<bar>t_mean ops (cx cst')\<bar> \<le> eps" .
next
  assume "minres_body ops Afun B rank tol par nrm (t_const_field ops xi) mst = Inr (brk, mst')"
  from corrected_mean [OF minres_body_corrected [OF this] assms]
  show "\<bar>t_mean ops (mx mst')\<bar> \<le> eps" .
next
  assume "richardson_body ops Afun B rank tol par nrm (t_const_field ops xi) omega rst
          = Inr (False, rst')"
  from richardson_body_corrected [OF this]
  have "corrected ops (t_const_field ops xi) rank tol (rx rst')" by simp
  from corrected_mean [OF this assms]
  show "\<bar>t_mean ops (rx rst')\<bar> \<le> eps" .
next
  assume a: "par = Some p \<and> p_eigrange p = Some (lmin, lmax) \<and>
    xi = (case x0 of None \<Rightarrow> B | Some x0' \<Rightarrow> x0') \<and>
    t_norm ops B \<noteq> 0 \<and> Afun xi = Some Ax \<and>
    \<not> 1 / t_norm ops B * t_norm ops (t_sub ops B Ax) < cheby_tol p \<and>
    cheby_loop ops Afun B rank tol callback (t_const_field ops xi)
      ((lmax + lmin) / 2) ((lmax - lmin) / 2) (t_norm ops (t_sub ops B Ax))
      (cheby_tol p) (cheby_maxiter p) (cheby_init ops B xi Ax) = Inr cend \<and>
    1 \<le> ckit cend"
  then have l: "cheby_loop ops Afun B rank tol callback (t_const_field ops xi)
      ((lmax + lmin) / 2) ((lmax - lmin) / 2) (t_norm ops (t_sub ops B Ax))
      (cheby_tol p) (cheby_maxiter p) (cheby_init ops B xi Ax) = Inr cend"
    and k: "1 \<le> ckit cend"
    by blast+
  from a have a1: "par = Some p" and a2: "p_eigrange p = Some (lmin, lmax)"
    and a3: "xi = (case x0 of None \<Rightarrow> B | Some x0' \<Rightarrow> x0')"
    and a4: "t_norm ops B \<noteq> 0" and a5: "Afun xi = Some Ax"
    and a6: "\<not> 1 / t_norm ops B * t_norm ops (t_sub ops B Ax) < cheby_tol p"
    by blast+
  show "cheby2TERM ops Afun B x0 rank tol par callback = cheby_tail (cheby_tol p) cend"
    by (rule cheby_tail_of_loop [where par = par and p = p and lmin = lmin and lmax = lmax
          and xi = xi and ?x0.0 = x0 and B = B and ops = ops and Afun = Afun and Ax = Ax
          and rank = rank and tol = tol and callback = callback and cst' = cend,
          OF a1 a2 a3 a4 a5 a6 l])
  from cheby_loop_corrected [OF l] k
  have "corrected ops (t_const_field ops xi) rank tol (cx cend)"
    by (auto simp: cheby_init_def)
  from corrected_mean [OF this assms] show "\<bar>t_mean ops (cx cend)\<bar> \<le> eps" .
next
  assume "minimal_residual ops Afun B x0 rank tol par norm_arg = Inr (xm, resm) \<and>
    1 \<le> kit resm"
  then obtain xj where "corrected ops (t_const_field ops xj) rank tol xm"
    using minimal_residual_corrected [of ops Afun B x0 rank tol par norm_arg xm resm] by blast
  from corrected_mean [OF this assms] show "\<bar>t_mean ops xm\<bar> \<le> eps" .
next
  assume "richardson ops Afun B x0 rank tol par norm_arg = Inr (xr, resr) \<and>
    norm_res resr = Seq h \<and> 2 \<le> length h"
  then obtain xj where "corrected ops (t_const_field ops xj) rank tol xr"
    using richardson_corrected [of ops Afun B x0 rank tol par norm_arg xr resr h] by blast
  from corrected_mean [OF this assms] show "\<bar>t_mean ops xr\<bar> \<le> eps" .
qed

text \<open>On the two-point grid the truncation changes nothing, so \<open>eps = 0\<close>: one pass of each
  body, the call of \<open>cheby2TERM\<close> with \<open>Afun = diag_op 2 2\<close>, and the calls of
  \<open>minimal_residual\<close> and \<open>richardson\<close> of the concrete runs all end with mean zero.\<close>

theorem mean_correction_applied_witness:
  "mean_laws pair_ops None None 0 \<and>
   cheby_body pair_ops (diag_op 1 3) (1, - 1) None None None (t_const_field pair_ops (1, - 1))
     2 1 2 cheby_st0 = Inr cheby_st1 \<and>
   \<bar>t_mean pair_ops (cx cheby_st1)\<bar> \<le> 0 \<and>
   minres_body pair_ops (diag_op (- 1) (- 1)) (1, 0) None None (Some solver_par)
     (t_norm_nd pair_ops) (t_const_field pair_ops (0, 0)) minres_sd0 = Inr (True, minres_sd1) \<and>
   \<bar>t_mean pair_ops (mx minres_sd1)\<bar> \<le> 0 \<and>
   richardson_body pair_ops (diag_op 3 3) (1, - 1) None None (Some solver_par)
     (t_norm pair_ops) (t_const_field pair_ops (0, 0)) 1 rich_st0 = Inr (False, rich_st1) \<and>
   \<bar>t_mean pair_ops (rx rich_st1)\<bar> \<le> 0 \<and>
   p_eigrange cheby_par = Some (1, 3) \<and> t_norm pair_ops (1, - 1) \<noteq> 0 \<and>
   diag_op 2 2 (1, - 1) = Some (2, - 2) \<and>
   \<not> 1 / t_norm pair_ops (1, - 1) * t_norm pair_ops (t_sub pair_ops (1, - 1) (2, - 2))
       < cheby_tol cheby_par \<and>
   cheby_loop pair_ops (diag_op 2 2) (1, - 1) None None None (t_const_field pair_ops (1, - 1))
     ((3 + 1) / 2) ((3 - 1) / 2) (t_norm pair_ops (t_sub pair_ops (1, - 1) (2, - 2)))
     (cheby_tol cheby_par) (cheby_maxiter cheby_par)
     (cheby_init pair_ops (1, - 1) (1, - 1) (2, - 2)) = Inr cheby_sc1 \<and>
   1 \<le> ckit cheby_sc1 \<and>
   cheby2TERM pair_ops (diag_op 2 2) (1, - 1) None None None (Some cheby_par) None
     = cheby_tail (cheby_tol cheby_par) cheby_sc1 \<and>
   \<bar>t_mean pair_ops (cx cheby_sc1)\<bar> \<le> 0 \<and>
   minimal_residual pair_ops (diag_op (- 1) (- 1)) (1, 0) (Some (0, 0)) None None
     (Some solver_par) None = Inr ((1 / 2, - 1 / 2), \<lparr>norm_res = Seq [1], kit = 1\<rparr>) \<and>
   \<bar>t_mean pair_ops (1 / 2, - 1 / 2)\<bar> \<le> 0 \<and>
   richardson pair_ops (diag_op 3 3) (1, - 1) (Some (0, 0)) None None (Some solver_par) None
     = Inr ((1, - 1), \<lparr>norm_res = Seq [2, 2], kit = 2\<rparr>) \<and>
   \<bar>t_mean pair_ops (1, - 1)\<bar> \<le> 0"
proof -
  note laws = pair_mean_laws [of None None]
  have tl: "cheby_tol cheby_par = 1 / 1000000" "cheby_maxiter cheby_par = 10000000"
    by (simp_all add: cheby_tol_def cheby_maxiter_def cheby_par_def empty_par_def)
  have b1: "cheby_body pair_ops (diag_op 1 3) (1, - 1) None None None
     (t_const_field pair_ops (1, - 1)) 2 1 2 cheby_st0 = Inr cheby_st1"
    using cheby_run_body0 by (simp add: pair_ops_simps)
  have b2: "minres_body pair_ops (diag_op (- 1) (- 1)) (1, 0) None None (Some solver_par)
     (t_norm_nd pair_ops) (t_const_field pair_ops (0, 0)) minres_sd0 = Inr (True, minres_sd1)"
    using minres_rund_body by (simp add: pair_ops_simps)
  have b3: "richardson_body pair_ops (diag_op 3 3) (1, - 1) None None (Some solver_par)
     (t_norm pair_ops) (t_const_field pair_ops (0, 0)) 1 rich_st0 = Inr (False, rich_st1)"
    using rich_body0 by (simp add: pair_ops_simps)
  have e: "p_eigrange cheby_par = Some (1, 3)" by (simp add: cheby_par_def)
  have nB: "t_norm pair_ops (1, - 1) \<noteq> 0" by (simp add: pair_ops_simps)
  have ax: "diag_op 2 2 (1, - 1) = Some (2, - 2)" by (simp add: diag_op_def)
  have h0: "\<not> 1 / t_norm pair_ops (1, - 1) * t_norm pair_ops (t_sub pair_ops (1, - 1) (2, - 2))
       < cheby_tol cheby_par"
    by (simp add: pair_ops_simps tl)
  have l: "cheby_loop pair_ops (diag_op 2 2) (1, - 1) None None None
     (t_const_field pair_ops (1, - 1))
     ((3 + 1) / 2) ((3 - 1) / 2) (t_norm pair_ops (t_sub pair_ops (1, - 1) (2, - 2)))
     (cheby_tol cheby_par) (cheby_maxiter cheby_par)
     (cheby_init pair_ops (1, - 1) (1, - 1) (2, - 2)) = Inr cheby_sc1"
    using cheby_run2_loop by (simp add: pair_ops_simps tl cheby_init_def cheby_sc0_def)
  have k: "1 \<le> ckit cheby_sc1" by (simp add: cheby_sc1_def)
  note i1 = mean_correction_applied [OF laws, where Afun = "diag_op 1 3" and B = "(1, - 1)"
      and callback = None and xi = "(1, - 1)" and d = 2 and c = 1 and ?r0.0 = 2
      and cst = cheby_st0 and cst' = cheby_st1]
  from i1 b1 have m1: "\<bar>t_mean pair_ops (cx cheby_st1)\<bar> \<le> 0" by blast
  note i2 = mean_correction_applied [OF laws, where Afun = "diag_op (- 1) (- 1)"
      and B = "(1, 0)" and par = "Some solver_par" and nrm = "t_norm_nd pair_ops"
      and xi = "(0, 0)" and mst = minres_sd0 and brk = True and mst' = minres_sd1
      and ?x0.0 = "Some (0, 0)" and norm_arg = None and xm = "(1 / 2, - 1 / 2)"
      and resm = "\<lparr>norm_res = Seq [1], kit = 1\<rparr>"]
  from i2 b2 have m2: "\<bar>t_mean pair_ops (mx minres_sd1)\<bar> \<le> 0" by blast
  from i2 minres_rund have m5: "\<bar>t_mean pair_ops (1 / 2, - 1 / 2)\<bar> \<le> 0" by simp
  note i3 = mean_correction_applied [OF laws, where Afun = "diag_op 3 3" and B = "(1, - 1)"
      and par = "Some solver_par" and nrm = "t_norm pair_ops" and xi = "(0, 0)" and omega = 1
      and rst = rich_st0 and rst' = rich_st1
      and ?x0.0 = "Some (0, 0)" and norm_arg = None and xr = "(1, - 1)"
      and resr = "\<lparr>norm_res = Seq [2, 2], kit = 2\<rparr>" and h = "[2, 2]"]
  from i3 b3 have m3: "\<bar>t_mean pair_ops (rx rich_st1)\<bar> \<le> 0" by blast
  from i3 rich_top have m6: "\<bar>t_mean pair_ops (1, - 1)\<bar> \<le> 0" by simp
  note i4 = mean_correction_applied [OF laws, where Afun = "diag_op 2 2" and B = "(1, - 1)"
      and callback = None and par = "Some cheby_par" and p = cheby_par and lmin = 1
      and lmax = 3 and xi = "(1, - 1)" and ?x0.0 = None and Ax = "(2, - 2)"
      and cend = cheby_sc1]
  from i4 e nB ax h0 l k
  have m4: "cheby2TERM pair_ops (diag_op 2 2) (1, - 1) None None None (Some cheby_par) None
     = cheby_tail (cheby_tol cheby_par) cheby_sc1"
    "\<bar>t_mean pair_ops (cx cheby_sc1)\<bar> \<le> 0"
    by simp_all
  from laws b1 m1 b2 m2 b3 m3 e nB ax h0 l k m4 minres_rund m5 rich_top m6
  show ?thesis by (intro conjI)
qed

text \<open>C2 as the specification states it covers every variant. \<open>richardson_debug\<close> with
  \<open>Afun\<close> the identity, \<open>B = (1, 0)\<close> and \<open>alpha = 1.0\<close> performs one pass and returns the
  iterate \<open>(1, 0)\<close>, whose mean is \<open>1/2\<close>.\<close>

theorem richardson_debug_mean_counterexample:
  "richardson_debug pair_ops (diag_op 1 1) (1, 0) None None None (Some solver_par) None
     = Inr ((1, 0), \<lparr>norm_res = Seq [0, 0], kit = 1\<rparr>) \<and>
   t_mean pair_ops (1, 0) = 1 / 2"
  using rich_debug_run
  by (simp add: richardson_debug_def richardson_omega_def solver_par_simps and_then_def
      py_div_def pair_ops_simps)


subsection \<open>The step size of minimal_residual\<close>

lemma minres_body_norm:
  "minres_body ops Afun B rank tol par nrm FM st = Inr (brk, st') \<Longrightarrow>
   mnorm_res st' = nrm (mresiduum st')"
  by (auto simp: minres_body_def and_then_def Let_def split: sum.splits if_splits)

lemma minres_reach_norm:
  assumes "minres_reach ops Afun B rank tol par nrm FM st0 st"
    and "mnorm_res st0 = nrm (mresiduum st0)"
  shows "mnorm_res st = nrm (mresiduum st)"
  using assms by (induction rule: minres_reach.induct) (auto dest: minres_body_norm)

lemma minres_omega_value:
  assumes "subscript par p_approx_omega = Inr approx"
  shows "minres_omega ops nrm par nres beta residuum =
           (if nrm beta = 0 then Inl ZeroDivisionError
            else Inr (spec_omega approx nres (nrm beta) (t_inner ops beta residuum)))"
  using assms by (simp add: minres_omega_def spec_omega_def and_then_def py_div_def Let_def)

lemma minres_loop_reach_eq:
  assumes "minres_reach ops Afun B rank tol par nrm FM st0 st"
  shows "minres_loop ops Afun B rank tol par nrm FM st0
         = minres_loop ops Afun B rank tol par nrm FM st"
  using assms
proof (induction rule: minres_reach.induct)
  case minres_start
  show ?case by simp
next
  case (minres_pass st st')
  have "minres_loop ops Afun B rank tol par nrm FM st
        = minres_loop ops Afun B rank tol par nrm FM st'"
    by (subst minres_loop.simps) (simp add: minres_pass.hyps)
  with minres_pass.IH show ?case by simp
qed

lemma minimal_residual_unfold:
  assumes "x = (case x0 of None \<Rightarrow> B | Some x0' \<Rightarrow> x0')"
    and "nrm = (case norm_arg of None \<Rightarrow> t_norm_nd ops | Some f \<Rightarrow> f)"
    and "Afun x = Some Ax" and "Afun (t_sub ops B Ax) = Some binit"
  shows "minimal_residual ops Afun B x0 rank tol par norm_arg
         = and_then
             (minres_loop ops Afun B rank tol par nrm (t_const_field ops x)
                (minres_init ops nrm B x Ax binit))
             minres_result"
proof -
  have r: "(\<lambda>st. Inr (mx st, \<lparr>norm_res = Seq (mhist st), kit = mkit st\<rparr>)) = minres_result"
    by (simp add: fun_eq_iff minres_result_def)
  from assms(3,4) show ?thesis
    unfolding assms(1,2) minimal_residual_def Let_def r minres_init_def
    by (simp add: and_then_def apply_op_def py_get_def)
qed

lemma minres_body_uses:
  assumes "minres_body ops Afun B rank tol par nrm FM st = Inr (brk, st')"
  shows "\<exists>om. minres_omega ops nrm par (mnorm_res st) (mbeta st) (mresiduum st) = Inr om \<and>
           mx st' = mean_correct ops FM (t_add ops (mx st) (t_mul ops (mresiduum st) om))
                      rank tol \<and>
           (Suc (mkit st) mod 10 \<noteq> 0 \<longrightarrow>
              mresiduum st' = t_truncate ops
                 (t_sub ops (mresiduum st) (t_mul ops (mbeta st) om)) rank tol)"
  using assms
  by (auto simp: minres_body_def minres_next_x_def minres_next_residuum_def and_then_def Let_def
      split: sum.splits if_splits)

text \<open>
  C3. Take a call of \<open>minimal_residual\<close> with the configured norm \<open>nrm\<close> (the argument
  \<open>norm\<close>, or \<open>X.norm(normal_domain=False)\<close>), and a pass of its loop: the loop stands at
  its head in state \<open>st\<close> and the guard holds. The call goes on from \<open>st\<close>. The variable
  \<open>norm_res\<close> is the norm of \<open>residuum\<close> there, so the step size that lines 119 to 128
  compute is \<open>omega = spec_omega\<close>: \<open>\<parallel>residuum\<parallel>/\<parallel>beta\<parallel>\<close> when \<open>par['approx_omega']\<close>
  is set, otherwise \<open>\<langle>beta, residuum\<rangle>/\<parallel>beta\<parallel>\<^sup>2\<close>, replaced by
  \<open>\<parallel>residuum\<parallel>/\<parallel>beta\<parallel>\<close> exactly when its magnitude is below \<open>1e-1\<close>. It is this
  \<open>omega\<close> with which the pass forms the iterate \<open>truncate(-FM mean(x) + x)\<close> of
  \<open>x + residuum omega\<close> and, outside the tenth passes, the residual
  \<open>truncate(residuum - beta omega)\<close>; the loop then ends (\<open>break\<close>) or goes on from the state
  the pass has left, where the step size is computed anew. Where \<open>\<parallel>beta\<parallel> = 0\<close> the
  quotients do not exist and the pass, and with it the loop, raises \<open>ZeroDivisionError\<close>.
\<close>

theorem minres_step_size:
  assumes "x = (case x0 of None \<Rightarrow> B | Some x0' \<Rightarrow> x0')"
    and "nrm = (case norm_arg of None \<Rightarrow> t_norm_nd ops | Some f \<Rightarrow> f)"
    and "Afun x = Some Ax" and "Afun (t_sub ops B Ax) = Some binit"
    and "FM = t_const_field ops x"
    and "subscript par p_approx_omega = Inr approx"
    and "minres_reach ops Afun B rank tol par nrm FM (minres_init ops nrm B x Ax binit) st"
    and "loop_guard par (mnorm_res st) (mkit st) = Inr True"
    and "omega = spec_omega approx (nrm (mresiduum st)) (nrm (mbeta st))
                   (t_inner ops (mbeta st) (mresiduum st))"
  shows "minimal_residual ops Afun B x0 rank tol par norm_arg
           = and_then (minres_loop ops Afun B rank tol par nrm FM st) minres_result \<and>
         minres_omega ops nrm par (mnorm_res st) (mbeta st) (mresiduum st)
           = (if nrm (mbeta st) = 0 then Inl ZeroDivisionError else Inr omega) \<and>
         (nrm (mbeta st) = 0 \<longrightarrow>
            minres_body ops Afun B rank tol par nrm FM st = Inl ZeroDivisionError \<and>
            minres_loop ops Afun B rank tol par nrm FM st = Inl ZeroDivisionError) \<and>
         (minres_body ops Afun B rank tol par nrm FM st = Inr (brk, st') \<longrightarrow>
            nrm (mbeta st) \<noteq> 0 \<and>
            mx st' = mean_correct ops FM
                       (t_add ops (mx st) (t_mul ops (mresiduum st) omega)) rank tol \<and>
            (Suc (mkit st) mod 10 \<noteq> 0 \<longrightarrow>
               mresiduum st' = t_truncate ops
                  (t_sub ops (mresiduum st) (t_mul ops (mbeta st) omega)) rank tol) \<and>
            minres_loop ops Afun B rank tol par nrm FM st
              = (if brk then Inr st' else minres_loop ops Afun B rank tol par nrm FM st'))"
proof -
  have n0: "mnorm_res (minres_init ops nrm B x Ax binit)
            = nrm (mresiduum (minres_init ops nrm B x Ax binit))"
    by (simp add: minres_init_def)
  note n = minres_reach_norm [OF assms(7) n0]
  have om: "minres_omega ops nrm par (mnorm_res st) (mbeta st) (mresiduum st)
           = (if nrm (mbeta st) = 0 then Inl ZeroDivisionError else Inr omega)"
    unfolding assms(9) n by (rule minres_omega_value [OF assms(6)])
  have call: "minimal_residual ops Afun B x0 rank tol par norm_arg
           = and_then (minres_loop ops Afun B rank tol par nrm FM st) minres_result"
    unfolding assms(5)
      minimal_residual_unfold [where x = x and ?x0.0 = x0 and B = B and nrm = nrm
        and norm_arg = norm_arg and ops = ops and Afun = Afun and Ax = Ax and binit = binit
        and rank = rank and tol = tol and par = par,
        OF assms(1) assms(2) assms(3) assms(4)]
      minres_loop_reach_eq [OF assms(7) [unfolded assms(5)]]
    by (rule refl)
  have zero: "nrm (mbeta st) = 0 \<longrightarrow>
            minres_body ops Afun B rank tol par nrm FM st = Inl ZeroDivisionError \<and>
            minres_loop ops Afun B rank tol par nrm FM st = Inl ZeroDivisionError"
  proof
    assume z: "nrm (mbeta st) = 0"
    with om have b: "minres_body ops Afun B rank tol par nrm FM st = Inl ZeroDivisionError"
      by (simp add: minres_body_def and_then_def)
    have "minres_loop ops Afun B rank tol par nrm FM st = Inl ZeroDivisionError"
      by (subst minres_loop.simps) (simp add: assms(8) b)
    with b show "minres_body ops Afun B rank tol par nrm FM st = Inl ZeroDivisionError \<and>
            minres_loop ops Afun B rank tol par nrm FM st = Inl ZeroDivisionError"
      by simp
  qed
  have pass: "minres_body ops Afun B rank tol par nrm FM st = Inr (brk, st') \<longrightarrow>
            nrm (mbeta st) \<noteq> 0 \<and>
            mx st' = mean_correct ops FM
                       (t_add ops (mx st) (t_mul ops (mresiduum st) omega)) rank tol \<and>
            (Suc (mkit st) mod 10 \<noteq> 0 \<longrightarrow>
               mresiduum st' = t_truncate ops
                  (t_sub ops (mresiduum st) (t_mul ops (mbeta st) omega)) rank tol) \<and>
            minres_loop ops Afun B rank tol par nrm FM st
              = (if brk then Inr st' else minres_loop ops Afun B rank tol par nrm FM st')"
  proof
    assume b: "minres_body ops Afun B rank tol par nrm FM st = Inr (brk, st')"
    from minres_body_uses [OF b] obtain om' where
      o: "minres_omega ops nrm par (mnorm_res st) (mbeta st) (mresiduum st) = Inr om'"
      and u: "mx st' = mean_correct ops FM
                 (t_add ops (mx st) (t_mul ops (mresiduum st) om')) rank tol"
        "Suc (mkit st) mod 10 \<noteq> 0 \<longrightarrow>
              mresiduum st' = t_truncate ops
                 (t_sub ops (mresiduum st) (t_mul ops (mbeta st) om')) rank tol"
      by blast
    from o om have nz: "nrm (mbeta st) \<noteq> 0" and eq: "om' = omega"
      by (auto split: if_splits)
    have l: "minres_loop ops Afun B rank tol par nrm FM st
              = (if brk then Inr st' else minres_loop ops Afun B rank tol par nrm FM st')"
      by (subst minres_loop.simps) (simp add: assms(8) b)
    from nz u l show "nrm (mbeta st) \<noteq> 0 \<and>
            mx st' = mean_correct ops FM
                       (t_add ops (mx st) (t_mul ops (mresiduum st) omega)) rank tol \<and>
            (Suc (mkit st) mod 10 \<noteq> 0 \<longrightarrow>
               mresiduum st' = t_truncate ops
                  (t_sub ops (mresiduum st) (t_mul ops (mbeta st) omega)) rank tol) \<and>
            minres_loop ops Afun B rank tol par nrm FM st
              = (if brk then Inr st' else minres_loop ops Afun B rank tol par nrm FM st')"
      unfolding eq by simp
  qed
  from call om zero pass show ?thesis by (intro conjI)
qed

lemma minres_rune_guard1:
  "loop_guard (Some exact_par) (mnorm_res minres_se1) (mkit minres_se1) = Inr True"
  by (simp add: loop_guard_def solver_par_simps and_then_def minres_se1_def)

lemma minres_rune_body1:
  "minres_body pair_ops (diag_op 2 2) (1, - 1) None None (Some exact_par)
     (t_norm_nd pair_ops) (1, 1) minres_se1 = Inr (False, minres_se2)"
  by (simp add: minres_body_def minres_omega_def minres_next_x_def minres_next_residuum_def
      mean_correct_def and_then_def diverging_def solver_par_simps py_get_def py_div_def
      apply_op_def diag_op_def pair_ops_simps minres_se1_def minres_se2_def Let_def)

text \<open>The call with \<open>Afun = diag_op 2 2\<close>, \<open>B = (1, -1)\<close>, \<open>x0 = (0, 0)\<close>, the default norm and
  the exact formula, in its second pass: the step size is
  \<open>\<langle>beta, residuum\<rangle>/\<parallel>beta\<parallel>\<^sup>2 = 1/4\<close>, the iterate becomes \<open>(3/8, -3/8)\<close> and the
  residual \<open>(1/4, -1/4)\<close>.\<close>

theorem minres_step_size_witness:
  "diag_op 2 2 (0, 0) = Some (0, 0) \<and>
   diag_op 2 2 (t_sub pair_ops (1, - 1) (0, 0)) = Some (2, - 2) \<and>
   subscript (Some exact_par) p_approx_omega = Inr False \<and>
   minres_reach pair_ops (diag_op 2 2) (1, - 1) None None (Some exact_par)
     (t_norm_nd pair_ops) (t_const_field pair_ops (0, 0))
     (minres_init pair_ops (t_norm_nd pair_ops) (1, - 1) (0, 0) (0, 0) (2, - 2)) minres_se1 \<and>
   loop_guard (Some exact_par) (mnorm_res minres_se1) (mkit minres_se1) = Inr True \<and>
   1 / 4 = spec_omega False (t_norm_nd pair_ops (mresiduum minres_se1))
             (t_norm_nd pair_ops (mbeta minres_se1))
             (t_inner pair_ops (mbeta minres_se1) (mresiduum minres_se1)) \<and>
   minres_body pair_ops (diag_op 2 2) (1, - 1) None None (Some exact_par)
     (t_norm_nd pair_ops) (t_const_field pair_ops (0, 0)) minres_se1
     = Inr (False, minres_se2) \<and>
   minimal_residual pair_ops (diag_op 2 2) (1, - 1) (Some (0, 0)) None None
     (Some exact_par) None
     = and_then
         (minres_loop pair_ops (diag_op 2 2) (1, - 1) None None (Some exact_par)
            (t_norm_nd pair_ops) (t_const_field pair_ops (0, 0)) minres_se1)
         minres_result \<and>
   minres_omega pair_ops (t_norm_nd pair_ops) (Some exact_par) (mnorm_res minres_se1)
     (mbeta minres_se1) (mresiduum minres_se1) = Inr (1 / 4) \<and>
   mx minres_se2 = (3 / 8, - 3 / 8) \<and> mresiduum minres_se2 = (1 / 4, - 1 / 4) \<and>
   minres_loop pair_ops (diag_op 2 2) (1, - 1) None None (Some exact_par)
     (t_norm_nd pair_ops) (t_const_field pair_ops (0, 0)) minres_se1
     = minres_loop pair_ops (diag_op 2 2) (1, - 1) None None (Some exact_par)
         (t_norm_nd pair_ops) (t_const_field pair_ops (0, 0)) minres_se2"
proof -
  have fm: "t_const_field pair_ops (0 :: real, 0 :: real) = (1, 1)"
    by (simp add: pair_ops_simps)
  have a3: "diag_op 2 2 (0, 0) = Some (0, 0)" by (simp add: diag_op_def)
  have a4: "diag_op 2 2 (t_sub pair_ops (1, - 1) (0, 0)) = Some (2, - 2)"
    by (simp add: diag_op_def pair_ops_simps)
  have a6: "subscript (Some exact_par) p_approx_omega = Inr False"
    by (simp add: solver_par_simps)
  have i0: "minres_init pair_ops (t_norm_nd pair_ops) (1, - 1) (0, 0) (0, 0) (2, - 2)
            = minres_se0"
    by (simp add: minres_init_def minres_se0_def pair_ops_simps)
  have a7: "minres_reach pair_ops (diag_op 2 2) (1, - 1) None None (Some exact_par)
     (t_norm_nd pair_ops) (t_const_field pair_ops (0, 0))
     (minres_init pair_ops (t_norm_nd pair_ops) (1, - 1) (0, 0) (0, 0) (2, - 2)) minres_se1"
    unfolding i0 fm by (rule minres_rune_reach)
  have a9: "1 / 4 = spec_omega False (t_norm_nd pair_ops (mresiduum minres_se1))
             (t_norm_nd pair_ops (mbeta minres_se1))
             (t_inner pair_ops (mbeta minres_se1) (mresiduum minres_se1))"
    by (simp add: spec_omega_def minres_se1_def pair_ops_simps)
  have b: "minres_body pair_ops (diag_op 2 2) (1, - 1) None None (Some exact_par)
     (t_norm_nd pair_ops) (t_const_field pair_ops (0, 0)) minres_se1
     = Inr (False, minres_se2)"
    unfolding fm by (rule minres_rune_body1)
  have nz: "t_norm_nd pair_ops (mbeta minres_se1) \<noteq> 0"
    by (simp add: minres_se1_def pair_ops_simps)
  note inst = minres_step_size [where x = "(0, 0)" and ?x0.0 = "Some (0, 0)"
      and B = "(1, - 1)" and nrm = "t_norm_nd pair_ops" and norm_arg = None and ops = pair_ops
      and Afun = "diag_op 2 2" and Ax = "(0, 0)" and binit = "(2, - 2)"
      and FM = "t_const_field pair_ops (0, 0)" and par = "Some exact_par" and approx = False
      and rank = None and tol = None and st = minres_se1 and omega = "1 / 4"
      and brk = False and st' = minres_se2,
      OF _ _ a3 a4 refl a6 a7 minres_rune_guard1 a9]
  have inst': "minimal_residual pair_ops (diag_op 2 2) (1, - 1) (Some (0, 0)) None None
     (Some exact_par) None
     = and_then
         (minres_loop pair_ops (diag_op 2 2) (1, - 1) None None (Some exact_par)
            (t_norm_nd pair_ops) (t_const_field pair_ops (0, 0)) minres_se1)
         minres_result \<and>
   minres_omega pair_ops (t_norm_nd pair_ops) (Some exact_par) (mnorm_res minres_se1)
     (mbeta minres_se1) (mresiduum minres_se1) = Inr (1 / 4) \<and>
   minres_loop pair_ops (diag_op 2 2) (1, - 1) None None (Some exact_par)
     (t_norm_nd pair_ops) (t_const_field pair_ops (0, 0)) minres_se1
     = minres_loop pair_ops (diag_op 2 2) (1, - 1) None None (Some exact_par)
         (t_norm_nd pair_ops) (t_const_field pair_ops (0, 0)) minres_se2"
    using inst b nz by simp
  have v: "mx minres_se2 = (3 / 8, - 3 / 8)" "mresiduum minres_se2 = (1 / 4, - 1 / 4)"
    by (simp_all add: minres_se2_def)
  from a3 a4 a6 a7 minres_rune_guard1 a9 b inst' v show ?thesis by (intro conjI) simp_all
qed

subsection \<open>The divergence criterion\<close>

lemma last_least:
  "sorted_wrt (\<lambda>a b. b \<le> a) xs \<Longrightarrow> x \<in> set xs \<Longrightarrow> last xs \<le> (x::real)"
  by (induction xs) (auto split: if_splits)

lemma sorted_append_entry:
  assumes "sorted_wrt (\<lambda>a b. b \<le> a) xs" and "xs \<noteq> []" and "\<not> n > last xs"
  shows "sorted_wrt (\<lambda>a b. b \<le> (a::real)) (xs @ [n])"
proof -
  have "\<forall>x\<in>set xs. n \<le> x"
    using last_least [OF assms(1)] assms(3) by fastforce
  with assms(1) show ?thesis by (simp add: sorted_wrt_append)
qed

lemma diverging_value:
  assumes "subscript par p_divcrit = Inr True" and "length hist = k" and "k > 0"
  shows "diverging par nres hist k = Inr (nres > last hist)"
  using assms by (auto simp: diverging_def and_then_def py_get_def last_conv_nth)

lemma minres_body_hist:
  assumes "minres_body ops Afun B rank tol par nrm FM st = Inr (brk, st')"
    and "subscript par p_divcrit = Inr True" and "hist_ok (mhist st) (mkit st)"
  shows "if brk then mhist st' = mhist st else hist_ok (mhist st') (mkit st')"
proof -
  from assms(3) have ne: "mhist st \<noteq> []" and len: "length (mhist st) = mkit st + 1"
    by (auto simp: hist_ok_def)
  from assms(1) obtain omega residuum
    where r: "minres_omega ops nrm par (mnorm_res st) (mbeta st) (mresiduum st) = Inr omega"
      "minres_next_residuum ops Afun B rank tol st omega (mkit st + 1)
         (minres_next_x ops FM rank tol st omega) = Inr residuum"
    by (auto simp: minres_body_def and_then_def Let_def split: sum.splits)
  have d: "diverging par (nrm residuum) (mhist st) (mkit st + 1)
           = Inr (nrm residuum > last (mhist st))"
    by (rule diverging_value [OF assms(2) len]) simp
  show ?thesis
  proof (cases "nrm residuum > last (mhist st)")
    case True
    with assms(1) r d show ?thesis
      by (auto simp: minres_body_def and_then_def Let_def)
  next
    case False
    with assms(1) r d have "\<not> brk" and h: "mhist st' = mhist st @ [nrm residuum]"
      and k: "mkit st' = Suc (mkit st)"
      by (auto simp: minres_body_def and_then_def Let_def split: sum.splits)
    from sorted_append_entry [OF _ ne False] assms(3)
    have "sorted_wrt (\<lambda>a b. b \<le> a) (mhist st @ [nrm residuum])"
      by (simp add: hist_ok_def)
    with h k len \<open>\<not> brk\<close> show ?thesis by (simp add: hist_ok_def)
  qed
qed

lemma minres_reach_hist:
  assumes "minres_reach ops Afun B rank tol par nrm FM st0 st"
    and "subscript par p_divcrit = Inr True" and "hist_ok (mhist st0) (mkit st0)"
  shows "hist_ok (mhist st) (mkit st)"
  using assms
proof (induction rule: minres_reach.induct)
  case minres_start
  then show ?case by simp
next
  case (minres_pass st st')
  from minres_body_hist [OF minres_pass.hyps(3) minres_pass.prems(1)]
    minres_pass.IH [OF minres_pass.prems]
  show ?case by simp
qed

lemma minres_loop_hist:
  "minres_loop ops Afun B rank tol par nrm FM st = Inr st' \<Longrightarrow>
   subscript par p_divcrit = Inr True \<Longrightarrow> hist_ok (mhist st) (mkit st) \<Longrightarrow>
   sorted_wrt (\<lambda>a b. b \<le> a) (mhist st')"
proof (induction ops Afun B rank tol par nrm FM st rule: minres_loop.induct)
  case (1 ops Afun B rank tol par nrm FM st)
  from "1.prems"(1) obtain go where g: "loop_guard par (mnorm_res st) (mkit st) = Inr go"
    by (subst (asm) minres_loop.simps) (auto split: sum.splits)
  show ?case
  proof (cases go)
    case False
    with g "1.prems" show ?thesis
      by (subst (asm) minres_loop.simps) (simp add: hist_ok_def)
  next
    case True
    with g "1.prems"(1) obtain brk st1
      where b: "minres_body ops Afun B rank tol par nrm FM st = Inr (brk, st1)"
        and l: "if brk then st' = st1
                else minres_loop ops Afun B rank tol par nrm FM st1 = Inr st'"
      by (subst (asm) minres_loop.simps) (auto split: sum.splits if_splits)
    note h = minres_body_hist [OF b "1.prems"(2,3)]
    show ?thesis
    proof (cases brk)
      case True
      with l h "1.prems"(3) show ?thesis by (simp add: hist_ok_def)
    next
      case False
      with l have l': "minres_loop ops Afun B rank tol par nrm FM st1 = Inr st'"
        by simp
      from h False have "hist_ok (mhist st1) (mkit st1)" by simp
      from "1.IH" [OF g \<open>go\<close> b refl False l' "1.prems"(2) this] show ?thesis .
    qed
  qed
qed

lemma minimal_residual_history:
  assumes "minimal_residual ops Afun B x0 rank tol par norm_arg = Inr (x, res)"
    and "subscript par p_divcrit = Inr True"
  shows "\<exists>h. norm_res res = Seq h \<and> sorted_wrt (\<lambda>a b. b \<le> a) h"
proof -
  from assms(1) obtain nrm FM x1 r b n st where
    l: "minres_loop ops Afun B rank tol par nrm FM
          \<lparr>mx = x1, mresiduum = r, mbeta = b, mnorm_res = n, mhist = [nrm r], mkit = 0\<rparr>
        = Inr st"
    and r: "res = \<lparr>norm_res = Seq (mhist st), kit = mkit st\<rparr>"
    by (auto simp: minimal_residual_def and_then_def Let_def split: sum.splits)
  from minres_loop_hist [OF l assms(2)] have "sorted_wrt (\<lambda>a b. b \<le> a) (mhist st)"
    by (simp add: hist_ok_def)
  with r show ?thesis by simp
qed

text \<open>
  C4, as amended. Let \<open>par['divcrit']\<close> be set in a call of \<open>minimal_residual\<close>. When the
  norm of the residual computed in a pass exceeds the last entry of the history, the loop
  ends without recording the new norm: the history is the one the pass started with, and
  the history that the call returns never has an entry that exceeds the one before it.
  The iterate that the loop ends with is the iterate \<open>minres_next_x\<close> that this very pass
  has computed and mean-corrected (lines 130 and 131 come before the test of line 139),
  not the iterate the pass started with.
\<close>

theorem minres_divergence_stop:
  assumes "subscript par p_divcrit = Inr True"
  shows "(minres_reach ops Afun B rank tol par nrm FM st0 st \<and>
          hist_ok (mhist st0) (mkit st0) \<and>
          loop_guard par (mnorm_res st) (mkit st) = Inr True \<and>
          minres_omega ops nrm par (mnorm_res st) (mbeta st) (mresiduum st) = Inr omega \<and>
          minres_next_residuum ops Afun B rank tol st omega (Suc (mkit st))
            (minres_next_x ops FM rank tol st omega) = Inr residuum \<and>
          nrm residuum > last (mhist st) \<longrightarrow>
          minres_loop ops Afun B rank tol par nrm FM st
            = Inr \<lparr>mx = minres_next_x ops FM rank tol st omega, mresiduum = residuum,
                   mbeta = mbeta st, mnorm_res = nrm residuum, mhist = mhist st,
                   mkit = Suc (mkit st)\<rparr>) \<and>
         (minimal_residual ops Afun B x0 rank tol par norm_arg = Inr (x, res) \<longrightarrow>
          (\<exists>h. norm_res res = Seq h \<and> sorted_wrt (\<lambda>a b. b \<le> a) h))"
proof (intro conjI impI)
  assume a: "minres_reach ops Afun B rank tol par nrm FM st0 st \<and>
          hist_ok (mhist st0) (mkit st0) \<and>
          loop_guard par (mnorm_res st) (mkit st) = Inr True \<and>
          minres_omega ops nrm par (mnorm_res st) (mbeta st) (mresiduum st) = Inr omega \<and>
          minres_next_residuum ops Afun B rank tol st omega (Suc (mkit st))
            (minres_next_x ops FM rank tol st omega) = Inr residuum \<and>
          nrm residuum > last (mhist st)"
  then have r: "minres_reach ops Afun B rank tol par nrm FM st0 st"
    and h0: "hist_ok (mhist st0) (mkit st0)"
    by simp_all
  have "hist_ok (mhist st) (mkit st)"
    by (rule minres_reach_hist [OF r assms h0])
  then have len: "length (mhist st) = mkit st + 1" by (simp add: hist_ok_def)
  have d: "diverging par (nrm residuum) (mhist st) (mkit st + 1) = Inr True"
    using diverging_value [OF assms len, of "nrm residuum"] a by simp
  have "minres_body ops Afun B rank tol par nrm FM st
        = Inr (True, \<lparr>mx = minres_next_x ops FM rank tol st omega, mresiduum = residuum,
                   mbeta = mbeta st, mnorm_res = nrm residuum, mhist = mhist st,
                   mkit = Suc (mkit st)\<rparr>)"
    using a d by (simp add: minres_body_def and_then_def Let_def)
  with a show "minres_loop ops Afun B rank tol par nrm FM st
            = Inr \<lparr>mx = minres_next_x ops FM rank tol st omega, mresiduum = residuum,
                   mbeta = mbeta st, mnorm_res = nrm residuum, mhist = mhist st,
                   mkit = Suc (mkit st)\<rparr>"
    by (subst minres_loop.simps) simp
next
  assume "minimal_residual ops Afun B x0 rank tol par norm_arg = Inr (x, res)"
  from minimal_residual_history [OF this assms]
  show "\<exists>h. norm_res res = Seq h \<and> sorted_wrt (\<lambda>a b. b \<le> a) h" .
qed

text \<open>The concrete run that diverges in its first pass: the loop ends with the history
  \<open>[1]\<close> it started with and with the updated iterate \<open>(1/2, -1/2)\<close>.\<close>

theorem minres_divergence_stop_witness:
  "subscript (Some solver_par) p_divcrit = Inr True \<and>
   minres_reach pair_ops (diag_op (- 1) (- 1)) (1, 0) None None (Some solver_par)
     (t_norm_nd pair_ops) (1, 1) minres_sd0 minres_sd0 \<and>
   hist_ok (mhist minres_sd0) (mkit minres_sd0) \<and>
   loop_guard (Some solver_par) (mnorm_res minres_sd0) (mkit minres_sd0) = Inr True \<and>
   minres_omega pair_ops (t_norm_nd pair_ops) (Some solver_par) (mnorm_res minres_sd0)
     (mbeta minres_sd0) (mresiduum minres_sd0) = Inr 1 \<and>
   minres_next_residuum pair_ops (diag_op (- 1) (- 1)) (1, 0) None None minres_sd0 1
     (Suc (mkit minres_sd0)) (minres_next_x pair_ops (1, 1) None None minres_sd0 1)
     = Inr (2, 0) \<and>
   t_norm_nd pair_ops (2, 0) > last (mhist minres_sd0) \<and>
   minres_loop pair_ops (diag_op (- 1) (- 1)) (1, 0) None None (Some solver_par)
     (t_norm_nd pair_ops) (1, 1) minres_sd0
     = Inr \<lparr>mx = (1 / 2, - 1 / 2), mresiduum = (2, 0), mbeta = (- 1, 0), mnorm_res = 2,
            mhist = [1], mkit = 1\<rparr> \<and>
   minimal_residual pair_ops (diag_op (- 1) (- 1)) (1, 0) (Some (0, 0)) None None
     (Some solver_par) None = Inr ((1 / 2, - 1 / 2), \<lparr>norm_res = Seq [1], kit = 1\<rparr>) \<and>
   sorted_wrt (\<lambda>a b. b \<le> a) [1 :: real]"
proof -
  have dc: "subscript (Some solver_par) p_divcrit = Inr True"
    by (simp add: solver_par_simps)
  have h0: "hist_ok (mhist minres_sd0) (mkit minres_sd0)"
    by (simp add: hist_ok_def minres_sd0_def)
  have nr: "minres_next_residuum pair_ops (diag_op (- 1) (- 1)) (1, 0) None None minres_sd0 1
     (Suc (mkit minres_sd0)) (minres_next_x pair_ops (1, 1) None None minres_sd0 1)
     = Inr (2, 0)"
    using minres_rund_next_residuum by (simp add: minres_rund_next_x)
  have ex: "t_norm_nd pair_ops (2, 0) > last (mhist minres_sd0)"
    by (simp add: pair_ops_simps minres_sd0_def)
  note inst = minres_divergence_stop [OF dc, where ops = pair_ops
      and Afun = "diag_op (- 1) (- 1)" and B = "(1, 0)" and rank = None and tol = None
      and nrm = "t_norm_nd pair_ops" and FM = "(1, 1)" and ?st0.0 = minres_sd0
      and st = minres_sd0 and omega = 1 and residuum = "(2, 0)"
      and ?x0.0 = "Some (0, 0)" and norm_arg = None and x = "(1 / 2, - 1 / 2)"
      and res = "\<lparr>norm_res = Seq [1], kit = 1\<rparr>"]
  from inst minres_start [of pair_ops "diag_op (- 1) (- 1)" "(1, 0)" None None
      "Some solver_par" "t_norm_nd pair_ops" "(1, 1)" minres_sd0]
    h0 minres_rund_guard minres_rund_omega nr ex
  have l0: "minres_loop pair_ops (diag_op (- 1) (- 1)) (1, 0) None None (Some solver_par)
     (t_norm_nd pair_ops) (1, 1) minres_sd0
     = Inr \<lparr>mx = minres_next_x pair_ops (1, 1) None None minres_sd0 1, mresiduum = (2, 0),
            mbeta = mbeta minres_sd0, mnorm_res = t_norm_nd pair_ops (2, 0),
            mhist = mhist minres_sd0, mkit = Suc (mkit minres_sd0)\<rparr>"
    by blast
  have l: "minres_loop pair_ops (diag_op (- 1) (- 1)) (1, 0) None None (Some solver_par)
     (t_norm_nd pair_ops) (1, 1) minres_sd0
     = Inr \<lparr>mx = (1 / 2, - 1 / 2), mresiduum = (2, 0), mbeta = (- 1, 0), mnorm_res = 2,
            mhist = [1], mkit = 1\<rparr>"
    unfolding l0 minres_rund_next_x by (simp add: pair_ops_simps minres_sd0_def)
  from inst minres_rund have s: "sorted_wrt (\<lambda>a b. b \<le> a) [1 :: real]" by simp
  from dc minres_start [of pair_ops "diag_op (- 1) (- 1)" "(1, 0)" None None
      "Some solver_par" "t_norm_nd pair_ops" "(1, 1)" minres_sd0]
    h0 minres_rund_guard minres_rund_omega nr ex l minres_rund s
  show ?thesis by (intro conjI)
qed

text \<open>C4 as the specification states it has the last iterate before the divergence
  returned. In the concrete run the call starts from \<open>x0 = (0, 0)\<close>, its first pass
  diverges (the residual norm grows from 1 to 2), and the call returns \<open>(1/2, -1/2)\<close>.\<close>

theorem minres_returned_iterate_counterexample:
  "minimal_residual pair_ops (diag_op (- 1) (- 1)) (1, 0) (Some (0, 0)) None None
     (Some solver_par) None = Inr ((1 / 2, - 1 / 2), \<lparr>norm_res = Seq [1], kit = 1\<rparr>) \<and>
   minres_body pair_ops (diag_op (- 1) (- 1)) (1, 0) None None (Some solver_par)
     (t_norm_nd pair_ops) (1, 1) minres_sd0 = Inr (True, minres_sd1) \<and>
   mx minres_sd0 = (0, 0) \<and> mnorm_res minres_sd1 = 2 \<and> mhist minres_sd0 = [1] \<and>
   (1 / 2, - 1 / 2) \<noteq> (0 :: real, 0 :: real)"
  using minres_rund minres_rund_body by (simp add: minres_sd0_def minres_sd1_def)








subsection \<open>The history of a call of cheby2TERM without iterations\<close>

text \<open>
  C8, as amended. A call of \<open>cheby2TERM\<close> whose initial normalised residual
  \<open>Ib * r0\<close> is below \<open>par['tol']\<close> performs no pass of the loop and returns at line 53
  with the one-entry sequence \<open>[Ib * r0]\<close> as \<open>res['norm_res']\<close>. The number \<open>0\<close> replaces
  the sequence only in lines 92 and 93, at the end of a call that has gone through the
  loop and left it with \<open>res['kit'] = 0\<close>.
\<close>

theorem cheby2TERM_zero_iterations:
  "(par = Some p \<and> p_eigrange p = Some Egv \<and> t_norm ops B \<noteq> 0 \<and>
    Afun (case x0 of None \<Rightarrow> B | Some x0' \<Rightarrow> x0') = Some Ax \<and>
    1 / t_norm ops B * t_norm ops (t_sub ops B Ax)
      < (case p_tol p of None \<Rightarrow> 1 / 1000000 | Some t \<Rightarrow> t) \<longrightarrow>
    cheby2TERM ops Afun B x0 rank tol par callback
      = Inr (case x0 of None \<Rightarrow> B | Some x0' \<Rightarrow> x0',
             \<lparr>norm_res = Seq [1 / t_norm ops B * t_norm ops (t_sub ops B Ax)], kit = 0\<rparr>,
             [])) \<and>
   (cheby_loop ops Afun B rank tol callback FM d c r0 ptol pmaxiter st0 = Inr st \<and>
    ckit st = 0 \<longrightarrow>
    cheby_finish st = (cx st, \<lparr>norm_res = Scalar 0, kit = 0\<rparr>))"
  by (auto simp: cheby2TERM_def cheby_finish_def and_then_def py_div_def apply_op_def
      py_get_def Let_def)

text \<open>A call that returns at line 53 (\<open>Afun\<close> the identity, \<open>x0 = None\<close>), and a loop that
  makes no pass (\<open>par['tol'] = 1\<close>, equal to the initial normalised residual).\<close>

theorem cheby2TERM_zero_iterations_witness:
  "p_eigrange cheby_par = Some (1, 3) \<and> t_norm pair_ops (1, - 1) \<noteq> 0 \<and>
   diag_op 1 1 (1, - 1) = Some (1, - 1) \<and>
   cheby2TERM pair_ops (diag_op 1 1) (1, - 1) None None None (Some cheby_par) None
     = Inr ((1, - 1), \<lparr>norm_res = Seq [0], kit = 0\<rparr>, []) \<and>
   cheby_loop pair_ops (diag_op 2 2) (1, - 1) None None None (1, 1) 2 1 2 1 10000000
     cheby_sc0 = Inr cheby_sc0 \<and>
   ckit cheby_sc0 = 0 \<and>
   cheby_finish cheby_sc0 = ((1, - 1), \<lparr>norm_res = Scalar 0, kit = 0\<rparr>)"
proof -
  have e: "p_eigrange cheby_par = Some (1, 3)"
    by (simp add: cheby_par_def)
  have n: "t_norm pair_ops (1, - 1) \<noteq> 0"
    by (simp add: pair_ops_simps)
  have a: "diag_op 1 1 (1, - 1) = Some (1, - 1)"
    by (simp add: diag_op_def)
  have l: "cheby_loop pair_ops (diag_op 2 2) (1, - 1) None None None (1, 1) 2 1 2 1 10000000
     cheby_sc0 = Inr cheby_sc0"
    by (subst cheby_loop.simps)
      (simp add: cheby_guard_def and_then_def py_get_def cheby_sc0_def)
  have k: "ckit cheby_sc0 = 0"
    by (simp add: cheby_sc0_def)
  note inst = cheby2TERM_zero_iterations [where par = "Some cheby_par" and p = cheby_par
      and Egv = "(1, 3)" and ops = pair_ops and B = "(1, - 1)" and Afun = "diag_op 1 1"
      and ?x0.0 = None and Ax = "(1, - 1)" and rank = None and tol = None and callback = None]
  from inst e n a
  have r: "cheby2TERM pair_ops (diag_op 1 1) (1, - 1) None None None (Some cheby_par) None
     = Inr ((1, - 1), \<lparr>norm_res = Seq [0], kit = 0\<rparr>, [])"
    by (simp add: pair_ops_simps cheby_par_def empty_par_def)
  from cheby2TERM_zero_iterations [where ops = pair_ops and Afun = "diag_op 2 2"
      and B = "(1, - 1)" and rank = None and tol = None and callback = None and FM = "(1, 1)"
      and d = 2 and c = 1 and ?r0.0 = 2 and ptol = 1 and pmaxiter = 10000000
      and ?st0.0 = cheby_sc0 and st = cheby_sc0] l k
  have f: "cheby_finish cheby_sc0 = ((1, - 1), \<lparr>norm_res = Scalar 0, kit = 0\<rparr>)"
    by (simp add: cheby_sc0_def)
  from e n a r l k f show ?thesis by (intro conjI)
qed

text \<open>C8 as the specification states it has the scalar \<open>0\<close> in every call without
  iterations. With \<open>Afun\<close> the identity and \<open>x0 = None\<close> the initial residual is zero, the
  call returns at line 53 without a pass of the loop, and the field is the list \<open>[0]\<close>.\<close>

theorem cheby2TERM_early_return_counterexample:
  "cheby2TERM pair_ops (diag_op 1 1) (1, - 1) None None None (Some cheby_par) None
     = Inr ((1, - 1), \<lparr>norm_res = Seq [0], kit = 0\<rparr>, []) \<and>
   Seq [0] \<noteq> Scalar 0"
  by (simp add: cheby2TERM_def cheby_par_def empty_par_def and_then_def py_div_def
      apply_op_def diag_op_def py_get_def pair_ops_simps)

subsection \<open>The step scale of the Richardson solvers\<close>

lemma loop_guard_err: "loop_guard par nr k \<noteq> Inl ValueError"
  by (auto simp: loop_guard_def subscript_def and_then_def
      split: sum.splits option.splits if_splits)

lemma richardson_body_err:
  "richardson_body ops Afun B rank tol par nrm FM omega st \<noteq> Inl ValueError"
  by (auto simp: richardson_body_def diverging_def subscript_def py_get_def and_then_def
      apply_op_def Let_def split: sum.splits option.splits if_splits)

lemma richardson_loop_err:
  "richardson_loop ops Afun B rank tol par nrm FM omega st \<noteq> Inl ValueError"
proof (induction ops Afun B rank tol par nrm FM omega st rule: richardson_loop.induct)
  case (1 ops Afun B rank tol par nrm FM omega st)
  show ?case
  proof (cases "loop_guard par (rnorm_res st) (rkit st)")
    case (Inl e)
    with loop_guard_err [of par "rnorm_res st" "rkit st"] show ?thesis
      by (subst richardson_loop.simps) auto
  next
    case g: (Inr go)
    show ?thesis
    proof (cases go)
      case False
      with g show ?thesis by (subst richardson_loop.simps) simp
    next
      case True
      show ?thesis
      proof (cases "richardson_body ops Afun B rank tol par nrm FM omega st")
        case (Inl e)
        with richardson_body_err [of ops Afun B rank tol par nrm FM omega st] g True
        show ?thesis by (subst richardson_loop.simps) auto
      next
        case (Inr bs)
        obtain brk st1 where bs: "bs = (brk, st1)" by (cases bs)
        show ?thesis
        proof (cases brk)
          case True
          with Inr bs g \<open>go\<close> show ?thesis by (subst richardson_loop.simps) simp
        next
          case False
          from "1.IH" [OF g \<open>go\<close> Inr bs [symmetric] False] Inr bs g \<open>go\<close> False
          show ?thesis by (subst richardson_loop.simps) simp
        qed
      qed
    qed
  qed
qed

lemma richardson_debug_loop_err:
  "richardson_debug_loop ops Afun B rank tol par nrm omega st \<noteq> Inl ValueError"
proof (induction ops Afun B rank tol par nrm omega st rule: richardson_debug_loop.induct)
  case (1 ops Afun B rank tol par nrm omega st)
  show ?case
  proof (cases "loop_guard par (rnorm_res st) (rkit st)")
    case (Inl e)
    with loop_guard_err [of par "rnorm_res st" "rkit st"] show ?thesis
      by (subst richardson_debug_loop.simps) auto
  next
    case g: (Inr go)
    show ?thesis
    proof (cases go)
      case False
      with g show ?thesis by (subst richardson_debug_loop.simps) simp
    next
      case True
      show ?thesis
      proof (cases "richardson_debug_body ops Afun B rank tol nrm omega st")
        case (Inl e)
        then have "e \<noteq> ValueError"
          by (auto simp: richardson_debug_body_def and_then_def apply_op_def Let_def
              split: sum.splits option.splits)
        with Inl g True show ?thesis by (subst richardson_debug_loop.simps) simp
      next
        case (Inr st1)
        from "1.IH" [OF g True Inr] Inr g True
        show ?thesis by (subst richardson_debug_loop.simps) simp
      qed
    qed
  qed
qed

lemma richardson_run_err:
  "richardson_run ops Afun B x0 rank tol par norm_arg omega \<noteq> Inl ValueError"
  using richardson_loop_err [of ops Afun B rank tol par]
  by (auto simp: richardson_run_def and_then_def Let_def split: sum.splits)

lemma richardson_debug_run_err:
  "richardson_debug_run ops Afun B x0 rank tol par norm_arg omega \<noteq> Inl ValueError"
  using richardson_debug_loop_err [of ops Afun B rank tol par]
  by (auto simp: richardson_debug_run_def and_then_def apply_op_def Let_def
      split: sum.splits option.splits)

lemma richardson_omega_cases:
  "richardson_omega par =
     (case par of None \<Rightarrow> Inl TypeError
      | Some p \<Rightarrow>
         (case p_alpha p of None \<Rightarrow> Inl KeyError
          | Some v \<Rightarrow>
             (case v of PyFloat a \<Rightarrow> if a = 0 then Inl ZeroDivisionError else Inr (1 / a)
              | _ \<Rightarrow> Inl ValueError)))"
  by (auto simp: richardson_omega_def subscript_def and_then_def py_div_def
      split: option.splits pyval.splits)

lemma is_float_iff: "is_float v \<longleftrightarrow> (\<exists>a. v = PyFloat a)"
  by (cases v) simp_all

text \<open>
  C9, as amended. \<open>richardson\<close> and \<open>richardson_debug\<close> raise the \<open>ValueError\<close> of lines
  156 and 191 exactly when \<open>par['alpha']\<close> is there and is not a float, whatever the
  operator does, so before the first pass of the loop. When \<open>par['alpha']\<close> is a float
  other than zero they go on with the step size \<open>omega = 1/alpha\<close>. (For the float \<open>0.0\<close>
  the division \<open>1./par['alpha']\<close> raises \<open>ZeroDivisionError\<close>.)
\<close>

theorem richardson_alpha:
  "(richardson ops Afun B x0 rank tol par norm_arg = Inl ValueError \<longleftrightarrow>
      (\<exists>p v. par = Some p \<and> p_alpha p = Some v \<and> \<not> is_float v)) \<and>
   (richardson_debug ops Afun B x0 rank tol par norm_arg = Inl ValueError \<longleftrightarrow>
      (\<exists>p v. par = Some p \<and> p_alpha p = Some v \<and> \<not> is_float v)) \<and>
   (par = Some q \<and> p_alpha q = Some (PyFloat a) \<and> a \<noteq> 0 \<longrightarrow>
      richardson ops Afun B x0 rank tol par norm_arg
        = richardson_run ops Afun B x0 rank tol par norm_arg (1 / a) \<and>
      richardson_debug ops Afun B x0 rank tol par norm_arg
        = richardson_debug_run ops Afun B x0 rank tol par norm_arg (1 / a))"
  using richardson_run_err [of ops Afun B x0 rank tol par norm_arg]
    richardson_debug_run_err [of ops Afun B x0 rank tol par norm_arg]
  by (auto simp: richardson_def richardson_debug_def richardson_omega_cases and_then_def
      is_float_iff split: option.splits pyval.splits)

text \<open>\<open>alpha = 1.0\<close>: both solvers run with \<open>omega = 1\<close>. \<open>alpha = 2\<close>, an \<open>int\<close>: both raise
  \<open>ValueError\<close>, also with an operator that raises on every call.\<close>

theorem richardson_alpha_witness:
  "p_alpha solver_par = Some (PyFloat 1) \<and> (1 :: real) \<noteq> 0 \<and>
   richardson pair_ops (diag_op 3 3) (1, - 1) (Some (0, 0)) None None (Some solver_par) None
     = richardson_run pair_ops (diag_op 3 3) (1, - 1) (Some (0, 0)) None None
         (Some solver_par) None (1 / 1) \<and>
   richardson_debug pair_ops (diag_op 3 3) (1, - 1) (Some (0, 0)) None None
       (Some solver_par) None
     = richardson_debug_run pair_ops (diag_op 3 3) (1, - 1) (Some (0, 0)) None None
         (Some solver_par) None (1 / 1) \<and>
   p_alpha int_alpha_par = Some (PyInt 2) \<and> \<not> is_float (PyInt 2) \<and>
   richardson pair_ops (\<lambda>x. None) (1, - 1) None None None (Some int_alpha_par) None
     = Inl ValueError \<and>
   richardson_debug pair_ops (\<lambda>x. None) (1, - 1) None None None (Some int_alpha_par) None
     = Inl ValueError"
proof -
  have a1: "p_alpha solver_par = Some (PyFloat 1)" by (simp add: solver_par_def)
  have a2: "p_alpha int_alpha_par = Some (PyInt 2)"
    by (simp add: int_alpha_par_def solver_par_def)
  have nf: "\<not> is_float (PyInt 2)" by simp
  note run = richardson_alpha [where par = "Some solver_par" and q = solver_par and a = 1
      and ops = pair_ops and Afun = "diag_op 3 3" and B = "(1, - 1)" and ?x0.0 = "Some (0, 0)"
      and rank = None and tol = None and norm_arg = None]
  note err = richardson_alpha [where par = "Some int_alpha_par"
      and ops = pair_ops and Afun = "\<lambda>x. None" and B = "(1, - 1)" and ?x0.0 = None
      and rank = None and tol = None and norm_arg = None]
  from run a1
  have r: "richardson pair_ops (diag_op 3 3) (1, - 1) (Some (0, 0)) None None
             (Some solver_par) None
           = richardson_run pair_ops (diag_op 3 3) (1, - 1) (Some (0, 0)) None None
               (Some solver_par) None (1 / 1)"
    "richardson_debug pair_ops (diag_op 3 3) (1, - 1) (Some (0, 0)) None None
       (Some solver_par) None
     = richardson_debug_run pair_ops (diag_op 3 3) (1, - 1) (Some (0, 0)) None None
         (Some solver_par) None (1 / 1)"
    by simp_all
  from err a2 nf
  have e: "richardson pair_ops (\<lambda>x. None) (1, - 1) None None None (Some int_alpha_par) None
             = Inl ValueError"
    "richardson_debug pair_ops (\<lambda>x. None) (1, - 1) None None None (Some int_alpha_par) None
       = Inl ValueError"
    by blast+
  have "(1 :: real) \<noteq> 0" by simp
  with a1 r a2 nf e show ?thesis by (intro conjI)
qed

text \<open>C9 as the specification states it has both solvers go on with \<open>omega = 1/alpha\<close>
  for every real \<open>alpha\<close>. \<open>alpha = 0.0\<close> is a float, and both solvers stop at
  \<open>1./par['alpha']\<close> with \<open>ZeroDivisionError\<close>.\<close>

theorem richardson_zero_alpha_counterexample:
  "p_alpha zero_alpha_par = Some (PyFloat 0) \<and> is_float (PyFloat 0) \<and>
   richardson pair_ops (diag_op 3 3) (1, - 1) (Some (0, 0)) None None
     (Some zero_alpha_par) None = Inl ZeroDivisionError \<and>
   richardson_debug pair_ops (diag_op 3 3) (1, - 1) (Some (0, 0)) None None
     (Some zero_alpha_par) None = Inl ZeroDivisionError"
  by (simp add: richardson_def richardson_debug_def richardson_omega_cases and_then_def
      zero_alpha_par_def solver_par_def)


subsection \<open>The loops pass through the states at their head\<close>

lemma cheby_loop_reach:
  "cheby_loop ops Afun B rank tol callback FM d c r0 ptol pmaxiter st = Inr st' \<Longrightarrow>
   cheby_reach ops Afun B rank tol callback FM d c r0 ptol pmaxiter st0 st \<Longrightarrow>
   cheby_reach ops Afun B rank tol callback FM d c r0 ptol pmaxiter st0 st'"
proof (induction ops Afun B rank tol callback FM d c r0 ptol pmaxiter st rule: cheby_loop.induct)
  case (1 ops Afun B rank tol callback FM d c r0 ptol pmaxiter st)
  from "1.prems"(1) obtain go where g: "cheby_guard ptol pmaxiter st = Inr go"
    by (subst (asm) cheby_loop.simps) (auto split: sum.splits)
  show ?case
  proof (cases go)
    case False
    with g "1.prems" show ?thesis by (subst (asm) cheby_loop.simps) simp
  next
    case True
    with g "1.prems"(1) obtain st1
      where b: "cheby_body ops Afun B rank tol callback FM d c r0 st = Inr st1"
        and l: "cheby_loop ops Afun B rank tol callback FM d c r0 ptol pmaxiter st1 = Inr st'"
      by (subst (asm) cheby_loop.simps) (auto split: sum.splits)
    from g True have g': "cheby_guard ptol pmaxiter st = Inr True" by simp
    from "1.IH" [OF g True b l cheby_pass [OF "1.prems"(2) g' b]] show ?thesis .
  qed
qed

lemma cheby2TERM_returns_early:
  assumes "cheby2TERM ops Afun B x0 rank tol par callback = Inr (x, res, out)"
  shows "kit res = 0 \<and> out = [] \<and> (\<exists>h. norm_res res = Seq [h])"
  using assms
  by (auto simp: cheby2TERM_def and_then_def py_lt_float_list_def Let_def
      split: sum.splits option.splits if_splits)

lemma minres_init_norm:
  assumes "minimal_residual ops Afun B x0 rank tol par norm_arg = Inr (x, res)"
  shows "\<exists>nrm FM st0 st.
           mnorm_res st0 = nrm (mresiduum st0) \<and> hist_ok (mhist st0) (mkit st0) \<and>
           minres_loop ops Afun B rank tol par nrm FM st0 = Inr st \<and> x = mx st"
proof -
  from assms obtain nrm FM x1 r b st where
    l: "minres_loop ops Afun B rank tol par nrm FM
          \<lparr>mx = x1, mresiduum = r, mbeta = b, mnorm_res = nrm r, mhist = [nrm r], mkit = 0\<rparr>
        = Inr st"
    and r: "x = mx st"
    by (auto simp: minimal_residual_def and_then_def py_get_def Let_def split: sum.splits)
  show ?thesis
    by (rule exI [of _ nrm], rule exI [of _ FM],
        rule exI [of _ "\<lparr>mx = x1, mresiduum = r, mbeta = b, mnorm_res = nrm r,
                         mhist = [nrm r], mkit = 0\<rparr>"],
        rule exI [of _ st])
      (simp add: l r hist_ok_def)
qed


end
